theory Spec2Isabelle
  imports Main "HOL-Library.Multiset"
begin

section \<open>The apply engine (pkg/deployment/apply\_utils.go)\<close>

subsection \<open>Objects, references, errors\<close>

text \<open>
  \<open>types.ObjectRef\<close>: the identity of a Kubernetes object.
\<close>

record ObjectRef =
  Group :: string
  Version :: string
  Kind :: string
  Namespace :: string
  Name :: string

text \<open>
  \<open>*unstructured.Unstructured\<close>: a free-form document. The engine reads its identity and
  reads and writes \<open>metadata.resourceVersion\<close>; the rest of the document is kept as a list of
  path/value pairs. A Go pointer that may be nil is an \<open>option\<close>.
\<close>

record Unstructured =
  objRef :: ObjectRef
  resourceVersion :: string
  annotations :: "(string \<times> string) list"
  content :: "(string \<times> string) list"

definition RefFromObject :: "Unstructured \<Rightarrow> ObjectRef" where
  "RefFromObject x = objRef x"

definition GetResourceVersion :: "Unstructured \<Rightarrow> string" where
  "GetResourceVersion x = resourceVersion x"

definition SetResourceVersion :: "string \<Rightarrow> Unstructured \<Rightarrow> Unstructured" where
  "SetResourceVersion rv x = x\<lparr>resourceVersion := rv\<rparr>"

text \<open>
  \<open>uo.CopyUnstructured\<close> returns a fresh deep copy. Values of HOL are immutable, so the copy
  is the value itself; what matters is that a later write to the copy leaves the original
  as it was, which is how \<open>SetResourceVersion\<close> above behaves.
\<close>

definition CopyUnstructured :: "Unstructured \<Rightarrow> Unstructured" where
  "CopyUnstructured x = x"

text \<open>
  Errors. The engine distinguishes errors by four tests only: \<open>meta.IsNoMatchError\<close>,
  \<open>errors.IsConflict\<close>, \<open>errors.IsNotFound\<close> and the type assertion
  \<open>err.(*errors.StatusError)\<close>. \<open>StatusError\<close> is the API server's structured status,
  \<open>WrappedStatus\<close> an error that answers the reason tests without being a
  \<open>*errors.StatusError\<close> itself, \<open>NoKindMatch\<close> the REST mapper's error, and \<open>Errorf\<close> an
  error made by \<open>fmt.Errorf\<close> (or any other plain error, such as a lost connection).
\<close>

datatype StatusReason =
  ReasonConflict | ReasonNotFound | ReasonInvalid | ReasonForbidden | ReasonUnknown

record Status =
  reason :: StatusReason
  code :: nat
  message :: string

datatype error =
  StatusError Status
| WrappedStatus Status
| NoKindMatch string
| Errorf string

fun IsNoMatchError :: "error \<Rightarrow> bool" where
  "IsNoMatchError (NoKindMatch _) = True"
| "IsNoMatchError _ = False"

fun ReasonForError :: "error \<Rightarrow> StatusReason" where
  "ReasonForError (StatusError st) = reason st"
| "ReasonForError (WrappedStatus st) = reason st"
| "ReasonForError _ = ReasonUnknown"

definition IsConflict :: "error \<Rightarrow> bool" where
  "IsConflict e = (ReasonForError e = ReasonConflict)"

definition IsNotFound :: "error \<Rightarrow> bool" where
  "IsNotFound e = (ReasonForError e = ReasonNotFound)"

text \<open>The type assertion \<open>applyError.(*errors.StatusError)\<close>: the status, and whether it held.\<close>

fun asStatusError :: "error \<Rightarrow> Status option" where
  "asStatusError (StatusError st) = Some st"
| "asStatusError _ = None"

subsection \<open>The Kubernetes client and the other collaborators\<close>

record PatchOptions =
  patchForceDryRun :: bool
  patchForceApply :: bool

record UpdateOptions =
  updateForceDryRun :: bool

record DeleteOptions =
  deleteForceDryRun :: bool

text \<open>
  What the engine does to the outside world, in the order it does it: the calls of the
  Kubernetes client with their request and options, and the half-second sleeps of the
  readiness poll. The engine keeps this list in its state so that the calls it issues can be
  spoken about; the source has no such field.
\<close>

datatype event =
  PatchCall Unstructured PatchOptions
| UpdateCall Unstructured UpdateOptions
| DeleteCall ObjectRef DeleteOptions
| GetCall ObjectRef
| SleepMs nat

type_synonym ApiWarning = string

record LostOwnership =
  loField :: string
  loMessage :: string

record ValidationResult =
  Ready :: bool
  Errors :: "string list"

text \<open>
  \<open>k8s.K8sCluster\<close>, \<open>diff.ResolveFieldManagerConflicts\<close>, \<open>validation.ValidateObject\<close> and the
  wall clock are not part of the engine: they are parameters. A call's answer may depend on
  everything that happened before it, so each takes the list of events so far. An answer is
  the API warnings together with either the error or the returned object.
  \<open>ResolveFieldManagerConflicts\<close> takes the remote object as the pointer the engine passes,
  which may be nil. \<open>timeNow\<close> is \<open>time.Now()\<close> in milliseconds.
\<close>

record K8sCluster =
  PatchObject :: "event list \<Rightarrow> Unstructured \<Rightarrow> PatchOptions \<Rightarrow> ApiWarning list \<times> (error + Unstructured)"
  UpdateObject :: "event list \<Rightarrow> Unstructured \<Rightarrow> UpdateOptions \<Rightarrow> ApiWarning list \<times> (error + Unstructured)"
  DeleteSingleObject :: "event list \<Rightarrow> ObjectRef \<Rightarrow> DeleteOptions \<Rightarrow> ApiWarning list \<times> error option"
  GetSingleObject :: "event list \<Rightarrow> ObjectRef \<Rightarrow> ApiWarning list \<times> (error + Unstructured)"
  FixObjectForPatch :: "Unstructured \<Rightarrow> Unstructured"
  ResolveFieldManagerConflicts ::
    "Unstructured \<Rightarrow> Unstructured option \<Rightarrow> Status \<Rightarrow> error + (Unstructured \<times> LostOwnership list)"
  ValidateObject :: "Unstructured \<Rightarrow> ValidationResult"
  timeNow :: "event list \<Rightarrow> nat"

subsection \<open>Options and state\<close>

text \<open>\<open>hookTimeout\<close> is a \<open>time.Duration\<close>, here in milliseconds.\<close>

record applyUtilOptions =
  forceApply :: bool
  replaceOnError :: bool
  forceReplaceOnError :: bool
  dryRun :: bool
  abortOnError :: bool
  hookTimeout :: nat

text \<open>
  \<open>applyUtil\<close>. The field \<open>o\<close> of the source is \<open>opts\<close> here. Of the deployment collection the
  engine uses the Remote Object Cache (\<open>getRemoteObject\<close>, read only) and the ledger of
  errors, warnings and API warnings, which are fields of this state. \<open>issued\<close> is the list of
  events described above.
\<close>

record applyUtil =
  opts :: applyUtilOptions
  remoteObjects :: "ObjectRef \<Rightarrow> Unstructured option"
  appliedObjects :: "ObjectRef \<Rightarrow> Unstructured option"
  appliedHookObjects :: "ObjectRef \<Rightarrow> Unstructured option"
  abortSignal :: bool
  errorLedger :: "(ObjectRef \<times> error) list"
  warningLedger :: "(ObjectRef \<times> string) list"
  apiWarningLedger :: "(ObjectRef \<times> ApiWarning) list"
  issued :: "event list"

definition newApplyUtil :: "(ObjectRef \<Rightarrow> Unstructured option) \<Rightarrow> applyUtilOptions \<Rightarrow> applyUtil" where
  "newApplyUtil remote ov =
     \<lparr>opts = ov, remoteObjects = remote, appliedObjects = Map.empty,
      appliedHookObjects = Map.empty, abortSignal = False, errorLedger = [],
      warningLedger = [], apiWarningLedger = [], issued = []\<rparr>"

text \<open>
  Modelled from the spec: \<open>DeploymentCollection.addError\<close>, \<open>addWarning\<close>, \<open>addApiWarnings\<close> and
  \<open>getRemoteObject\<close> are not in the source files at hand. The spec's ledger is append-only
  and keeps insertion order; the cache is a lookup by reference that is never written
  during apply.
\<close>

definition addError :: "ObjectRef \<Rightarrow> error \<Rightarrow> applyUtil \<Rightarrow> applyUtil" where
  "addError r e a = a\<lparr>errorLedger := errorLedger a @ [(r, e)]\<rparr>"

definition addWarning :: "ObjectRef \<Rightarrow> string \<Rightarrow> applyUtil \<Rightarrow> applyUtil" where
  "addWarning r w a = a\<lparr>warningLedger := warningLedger a @ [(r, w)]\<rparr>"

definition addApiWarnings :: "ObjectRef \<Rightarrow> ApiWarning list \<Rightarrow> applyUtil \<Rightarrow> applyUtil" where
  "addApiWarnings r ws a = a\<lparr>apiWarningLedger := apiWarningLedger a @ map (Pair r) ws\<rparr>"

definition getRemoteObject :: "applyUtil \<Rightarrow> ObjectRef \<Rightarrow> Unstructured option" where
  "getRemoteObject a r = remoteObjects a r"

definition emit :: "event \<Rightarrow> applyUtil \<Rightarrow> applyUtil" where
  "emit ev a = a\<lparr>issued := issued a @ [ev]\<rparr>"

subsection \<open>Recording results, warnings and errors\<close>

definition handleResult :: "Unstructured \<Rightarrow> bool \<Rightarrow> applyUtil \<Rightarrow> applyUtil" where
  "handleResult appliedObject hook a =
     (let r = RefFromObject appliedObject in
      if hook then a\<lparr>appliedHookObjects := (appliedHookObjects a)(r \<mapsto> appliedObject)\<rparr>
      else a\<lparr>appliedObjects := (appliedObjects a)(r \<mapsto> appliedObject)\<rparr>)"

definition handleApiWarnings :: "ObjectRef \<Rightarrow> ApiWarning list \<Rightarrow> applyUtil \<Rightarrow> applyUtil" where
  "handleApiWarnings r ws a = addApiWarnings r ws a"

definition handleWarning :: "ObjectRef \<Rightarrow> string \<Rightarrow> applyUtil \<Rightarrow> applyUtil" where
  "handleWarning r w a = addWarning r w a"

text \<open>
  \<open>handleError\<close> holds the mutex from its first statement to its last: setting the signal
  and appending to the ledger are one step.
\<close>

definition handleError :: "ObjectRef \<Rightarrow> error \<Rightarrow> applyUtil \<Rightarrow> applyUtil" where
  "handleError r e a =
     addError r e (if abortOnError (opts a) then a\<lparr>abortSignal := True\<rparr> else a)"

subsection \<open>Delete, and the three retries\<close>

definition deleteObject :: "K8sCluster \<Rightarrow> ObjectRef \<Rightarrow> applyUtil \<Rightarrow> bool \<times> applyUtil" where
  "deleteObject k r a =
     (let ov = \<lparr>deleteForceDryRun = dryRun (opts a)\<rparr>;
          (apiWarnings, err) = DeleteSingleObject k (issued a) r ov;
          a1 = handleApiWarnings r apiWarnings (emit (DeleteCall r ov) a)
      in case err of
           Some e \<Rightarrow> (False, handleError r e a1)
         | None \<Rightarrow> (True, a1))"

definition retryApplyForceReplace ::
    "K8sCluster \<Rightarrow> Unstructured \<Rightarrow> bool \<Rightarrow> error \<Rightarrow> applyUtil \<Rightarrow> applyUtil" where
  "retryApplyForceReplace k x hook applyError a =
     (let r = RefFromObject x in
      if \<not> forceReplaceOnError (opts a) then handleError r applyError a
      else
        (let (deleted, a1) = deleteObject k r a in
         if \<not> deleted then a1
         else if \<not> dryRun (opts a1) then
           (let ov = \<lparr>patchForceDryRun = dryRun (opts a1), patchForceApply = False\<rparr>;
                (apiWarnings, res) = PatchObject k (issued a1) x ov;
                a2 = handleApiWarnings r apiWarnings (emit (PatchCall x ov) a1)
            in case res of
                 Inl e \<Rightarrow> handleError r e a2
               | Inr r' \<Rightarrow> handleResult r' hook a2)
         else handleResult x hook a1))"

text \<open>
  \<open>retryApplyWithReplace\<close> builds \<open>x2\<close>, the copy of \<open>x\<close> carrying the remote object's
  resourceVersion, and then calls \<open>a.k.UpdateObject(x, o)\<close>: the request is \<open>x\<close>.
\<close>

definition retryApplyWithReplace ::
    "K8sCluster \<Rightarrow> Unstructured \<Rightarrow> bool \<Rightarrow> Unstructured option \<Rightarrow> error \<Rightarrow> applyUtil \<Rightarrow> applyUtil" where
  "retryApplyWithReplace k x hook remoteObject applyError a =
     (let r = RefFromObject x in
      case (if \<not> replaceOnError (opts a) then None else remoteObject) of
        None \<Rightarrow> handleError r applyError a
      | Some remote \<Rightarrow>
          (let rv = GetResourceVersion remote;
               x2 = SetResourceVersion rv (CopyUnstructured x);
               ov = \<lparr>updateForceDryRun = dryRun (opts a)\<rparr>;
               (apiWarnings, res) = UpdateObject k (issued a) x ov;
               a1 = handleApiWarnings r apiWarnings (emit (UpdateCall x ov) a)
           in case res of
                Inl e \<Rightarrow> retryApplyForceReplace k x hook e a1
              | Inr r' \<Rightarrow> handleResult r' hook a1))"

text \<open>
  \<open>retryApplyWithConflicts\<close>. The first \<open>if\<close> records the error when the remote object is nil
  and has no \<open>return\<close>: control goes on to the statements below it.
\<close>

definition lostOwnershipWarning :: "LostOwnership \<Rightarrow> string" where
  "lostOwnershipWarning lo =
     loMessage lo @ ''. Not updating field '' @ [CHR 0x27] @ loField lo @ [CHR 0x27]
       @ '' as we lost field ownership''"

definition retryApplyWithConflicts ::
    "K8sCluster \<Rightarrow> Unstructured \<Rightarrow> bool \<Rightarrow> Unstructured option \<Rightarrow> error \<Rightarrow> applyUtil \<Rightarrow> applyUtil" where
  "retryApplyWithConflicts k x hook remoteObject applyError a =
     (let r = RefFromObject x;
          a0 = (if remoteObject = None then handleError r applyError a else a);
          resolved =
            (if \<not> forceApply (opts a0) then
               (case asStatusError applyError of
                  None \<Rightarrow> Inl (handleError r applyError a0)
                | Some st \<Rightarrow>
                    (case ResolveFieldManagerConflicts k x remoteObject st of
                       Inl e \<Rightarrow> Inl (handleError r e a0)
                     | Inr (x3, lostOwnership) \<Rightarrow>
                         Inr (x3, fold (\<lambda>lo. addWarning r (lostOwnershipWarning lo)) lostOwnership a0)))
             else Inr (x, a0))
      in case resolved of
           Inl a' \<Rightarrow> a'
         | Inr (x2, a1) \<Rightarrow>
             (let ov = \<lparr>patchForceDryRun = dryRun (opts a1), patchForceApply = True\<rparr>;
                  (apiWarnings, res) = PatchObject k (issued a1) x2 ov;
                  a2 = handleApiWarnings r apiWarnings (emit (PatchCall x2 ov) a1)
              in case res of
                   Inl e \<Rightarrow> handleError r e a2
                 | Inr r' \<Rightarrow> handleResult r' hook a2))"

subsection \<open>Applying one object\<close>

definition applyObject :: "K8sCluster \<Rightarrow> Unstructured \<Rightarrow> bool \<Rightarrow> bool \<Rightarrow> applyUtil \<Rightarrow> applyUtil" where
  "applyObject k x0 replaced hook a =
     (let r = RefFromObject x0;
          x = FixObjectForPatch k x0;
          remoteObject = getRemoteObject a r
      in if dryRun (opts a) \<and> replaced \<and> remoteObject \<noteq> None then handleResult x hook a
         else
           (let ov = \<lparr>patchForceDryRun = dryRun (opts a), patchForceApply = False\<rparr>;
                (apiWarnings, res) = PatchObject k (issued a) x ov;
                a1 = handleApiWarnings r apiWarnings (emit (PatchCall x ov) a)
            in case res of
                 Inr r' \<Rightarrow> handleResult r' hook a1
               | Inl e \<Rightarrow>
                   if IsNoMatchError e then handleError r e a1
                   else if IsConflict e then retryApplyWithConflicts k x hook remoteObject e a1
                   else retryApplyWithReplace k x hook remoteObject e a1))"

subsection \<open>Waiting for a hook\<close>








subsection \<open>One deployment item\<close>

record deploymentItem =
  configPath :: "string option"
  configBarrier :: "bool option"
  objects :: "Unstructured list"
  relToProjectItemDir :: string

text \<open>
  \<open>deploymentItem.checkInclusionForDeploy\<close> and the hook runner (\<open>hooksUtil.getHook\<close>,
  \<open>hooksUtil.runHooks\<close>) are parameters. \<open>getHook\<close> returns the hook description of an object,
  here its list of phases, or nil for a regular object.
\<close>

record hooksUtil =
  checkInclusionForDeploy :: "deploymentItem \<Rightarrow> bool"
  getHook :: "Unstructured \<Rightarrow> string list option"
  runHooks :: "K8sCluster \<Rightarrow> deploymentItem \<Rightarrow> string list \<Rightarrow> applyUtil \<Rightarrow> applyUtil"

text \<open>The first loop of \<open>applyKustomizeDeployment\<close>: it ranges over \<open>d.objects\<close>.\<close>

definition initialDeploy :: "applyUtil \<Rightarrow> deploymentItem \<Rightarrow> bool" where
  "initialDeploy a d =
     fold (\<lambda>x initial. if getRemoteObject a (RefFromObject x) \<noteq> None then False else initial)
       (objects d) True"

text \<open>The second loop: the objects that are no hooks, in the order of \<open>d.objects\<close>.\<close>

definition applyObjects :: "hooksUtil \<Rightarrow> deploymentItem \<Rightarrow> Unstructured list" where
  "applyObjects h d = fold (\<lambda>x acc. if getHook h x \<noteq> None then acc else acc @ [x]) (objects d) []"

definition applyKustomizeDeployment ::
    "K8sCluster \<Rightarrow> hooksUtil \<Rightarrow> deploymentItem \<Rightarrow> applyUtil \<Rightarrow> applyUtil" where
  "applyKustomizeDeployment k h d a =
     (if configPath d = None then a
      else if \<not> checkInclusionForDeploy h d then a
      else
        (let initial = initialDeploy a d;
             a1 = (if initial then runHooks h k d [''pre-deploy-initial'', ''pre-deploy''] a
                   else runHooks h k d [''pre-deploy-upgrade'', ''pre-deploy''] a);
             a2 = fold (\<lambda>x. applyObject k x False False) (applyObjects h d) a1
         in if initial then runHooks h k d [''post-deploy-initial'', ''post-deploy''] a2
            else runHooks h k d [''post-deploy-upgrade'', ''post-deploy''] a2))"

subsection \<open>The scheduler and the worker pool\<close>

text \<open>
  \<open>applyDeployments\<close> runs on one thread and hands one closure per deployment item,
  \<open>a.applyKustomizeDeployment(d)\<close>, to a worker pool of size 16; the pool's threads run the
  closures. The scheduler thread and the pool are modelled as a machine that is driven by a
  list of actions: \<open>Scheduler\<close> lets the scheduler thread execute its next statement,
  \<open>Worker i\<close> lets the pool run the \<open>i\<close>-th waiting task. Every interleaving of the two is a
  list of actions. \<open>submitted\<close> and \<open>completed\<close> keep what was handed to the pool and what
  the pool has run; the source has no such fields.
\<close>

text \<open>
  Modelled from the spec: the worker pool (\<open>utils.NewDebuggerAwareWorkerPool\<close>, \<open>Submit\<close>,
  \<open>StopWait\<close>) is not in the source files at hand. \<open>Submit\<close> queues a task; \<open>StopWait\<close> blocks
  until the pool has drained; at most 16 tasks are in progress at a time. A task is run in
  one step of the machine: the statements of two tasks are not interleaved.
\<close>

datatype pc = AtCheck | AtBarrier | AtSubmit | AtFinalWait | Returned

datatype action = Scheduler | Worker nat

record sched =
  todo :: "deploymentItem list"
  pc :: pc
  previousWasBarrier :: bool
  queue :: "deploymentItem list"
  submitted :: "deploymentItem list"
  completed :: "deploymentItem list"
  au :: applyUtil

definition poolSize :: nat where
  "poolSize = 16"

definition barrierOf :: "deploymentItem \<Rightarrow> bool" where
  "barrierOf d = (case configBarrier d of None \<Rightarrow> False | Some b \<Rightarrow> b)"

definition applyDeploymentsInit :: "deploymentItem list \<Rightarrow> applyUtil \<Rightarrow> sched" where
  "applyDeploymentsInit ds a =
     \<lparr>todo = ds, pc = AtCheck, previousWasBarrier = False, queue = [], submitted = [],
      completed = [], au = a\<rparr>"

text \<open>
  One statement of the scheduler thread. \<open>AtCheck\<close> is the head of the \<open>range\<close> loop with
  the test of \<open>a.abortSignal\<close>; \<open>AtBarrier\<close> is \<open>wp.StopWait(true)\<close> under
  \<open>previousWasBarrier\<close>, which blocks while tasks are waiting; \<open>AtSubmit\<close> sets
  \<open>previousWasBarrier\<close> and calls \<open>wp.Submit\<close>; \<open>AtFinalWait\<close> is \<open>wp.StopWait(false)\<close> after
  the loop.
\<close>

definition schedulerStep :: "sched \<Rightarrow> sched" where
  "schedulerStep c =
     (case pc c of
        AtCheck \<Rightarrow>
          (case todo c of
             [] \<Rightarrow> c\<lparr>pc := AtFinalWait\<rparr>
           | d # ds \<Rightarrow> if abortSignal (au c) then c\<lparr>pc := AtFinalWait\<rparr> else c\<lparr>pc := AtBarrier\<rparr>)
      | AtBarrier \<Rightarrow>
          if previousWasBarrier c \<and> queue c \<noteq> [] then c else c\<lparr>pc := AtSubmit\<rparr>
      | AtSubmit \<Rightarrow>
          (case todo c of
             [] \<Rightarrow> c
           | d # ds \<Rightarrow>
               c\<lparr>previousWasBarrier := barrierOf d, queue := queue c @ [d],
                 submitted := submitted c @ [d], todo := ds, pc := AtCheck\<rparr>)
      | AtFinalWait \<Rightarrow> if queue c \<noteq> [] then c else c\<lparr>pc := Returned\<rparr>
      | Returned \<Rightarrow> c)"

definition workerStep :: "K8sCluster \<Rightarrow> hooksUtil \<Rightarrow> nat \<Rightarrow> sched \<Rightarrow> sched" where
  "workerStep k h i c =
     (if i < min poolSize (length (queue c)) then
        c\<lparr>au := applyKustomizeDeployment k h (queue c ! i) (au c),
          queue := take i (queue c) @ drop (Suc i) (queue c),
          completed := completed c @ [queue c ! i]\<rparr>
      else c)"

fun step :: "K8sCluster \<Rightarrow> hooksUtil \<Rightarrow> action \<Rightarrow> sched \<Rightarrow> sched" where
  "step k h Scheduler c = schedulerStep c"
| "step k h (Worker i) c = workerStep k h i c"

definition applyDeployments ::
    "K8sCluster \<Rightarrow> hooksUtil \<Rightarrow> action list \<Rightarrow> deploymentItem list \<Rightarrow> applyUtil \<Rightarrow> sched" where
  "applyDeployments k h acts ds a = fold (step k h) acts (applyDeploymentsInit ds a)"

subsection \<open>What a call carries\<close>

text \<open>
  Patch, update and delete change the cluster; get and sleep do not. \<open>dryRunOf\<close> is the
  \<open>ForceDryRun\<close> option of a call that changes the cluster.
\<close>

fun dryRunOf :: "event \<Rightarrow> bool option" where
  "dryRunOf (PatchCall _ ov) = Some (patchForceDryRun ov)"
| "dryRunOf (UpdateCall _ ov) = Some (updateForceDryRun ov)"
| "dryRunOf (DeleteCall _ ov) = Some (deleteForceDryRun ov)"
| "dryRunOf (GetCall _) = None"
| "dryRunOf (SleepMs _) = None"

definition isMutation :: "event \<Rightarrow> bool" where
  "isMutation ev = (dryRunOf ev \<noteq> None)"

definition carriesDryRun :: "event \<Rightarrow> bool" where
  "carriesDryRun ev = (dryRunOf ev = Some True)"

text \<open>The events a step added: those of the state after it, past those of the state before.\<close>

definition newEvents :: "applyUtil \<Rightarrow> applyUtil \<Rightarrow> event list" where
  "newEvents a a' = drop (length (issued a)) (issued a')"

subsection \<open>Concrete objects and clusters\<close>

text \<open>
  The ConfigMap \<open>cm1\<close> in namespace \<open>ns1\<close> of the spec's scenarios, as rendered locally (no
  resourceVersion) and as the Remote Object Cache holds it (resourceVersion 42).
\<close>

definition cm1Ref :: ObjectRef where
  "cm1Ref = \<lparr>Group = [], Version = ''v1'', Kind = ''ConfigMap'', Namespace = ''ns1'', Name = ''cm1''\<rparr>"

definition cm1 :: Unstructured where
  "cm1 = \<lparr>objRef = cm1Ref, resourceVersion = [], annotations = [], content = [(''data.a'', ''local'')]\<rparr>"

definition cm1Remote :: Unstructured where
  "cm1Remote = \<lparr>objRef = cm1Ref, resourceVersion = ''42'', annotations = [],
                 content = [(''data.a'', ''remote'')]\<rparr>"

definition cacheWithCm1 :: "ObjectRef \<Rightarrow> Unstructured option" where
  "cacheWithCm1 = [cm1Ref \<mapsto> cm1Remote]"

definition errInvalid :: error where
  "errInvalid = StatusError \<lparr>reason = ReasonInvalid, code = 422, message = ''invalid''\<rparr>"

definition errConflict :: error where
  "errConflict = StatusError \<lparr>reason = ReasonConflict, code = 409, message = ''conflict''\<rparr>"


text \<open>
  A cluster whose answers are fixed: \<open>firstPatch\<close> answers a patch without the force
  directive, a forced patch and an update return the request, delete succeeds, get answers
  \<open>getAnswer\<close>, validation says \<open>validated\<close>, and the clock advances by 500 ms with each event.
\<close>

definition fixedCluster ::
    "error option \<Rightarrow> (error + Unstructured) \<Rightarrow> ValidationResult \<Rightarrow> K8sCluster" where
  "fixedCluster firstPatch getAnswer validated =
     \<lparr>PatchObject = (\<lambda>evs x ov.
         if patchForceApply ov then ([], Inr x)
         else (case firstPatch of Some e \<Rightarrow> ([], Inl e) | None \<Rightarrow> ([], Inr x))),
      UpdateObject = (\<lambda>evs x ov. ([], Inr x)),
      DeleteSingleObject = (\<lambda>evs r ov. ([], None)),
      GetSingleObject = (\<lambda>evs r. ([], getAnswer)),
      FixObjectForPatch = (\<lambda>x. x),
      ResolveFieldManagerConflicts = (\<lambda>x remote st. Inr (x, [])),
      ValidateObject = (\<lambda>x. validated),
      timeNow = (\<lambda>evs. 500 * length evs)\<rparr>"

definition notReady :: ValidationResult where
  "notReady = \<lparr>Ready = False, Errors = []\<rparr>"

definition runOptions :: applyUtilOptions where
  "runOptions = \<lparr>forceApply = False, replaceOnError = False, forceReplaceOnError = False,
                  dryRun = False, abortOnError = False, hookTimeout = 0\<rparr>"

subsection \<open>A step of the engine that respects the run's options\<close>

text \<open>
  \<open>follows a a'\<close>: the state \<open>a'\<close> came from \<open>a\<close> by issuing further events, with the options
  and the Remote Object Cache untouched, and every new call that changes the cluster has
  its \<open>ForceDryRun\<close> equal to the run's \<open>dryRun\<close>.
\<close>

definition follows :: "applyUtil \<Rightarrow> applyUtil \<Rightarrow> bool" where
  "follows a a' = (opts a' = opts a \<and> remoteObjects a' = remoteObjects a \<and>
     (\<exists>evs. issued a' = issued a @ evs \<and>
        (\<forall>ev \<in> set evs. dryRunOf ev = None \<or> dryRunOf ev = Some (dryRun (opts a)))))"

subsection \<open>The answer that ended a wait\<close>


subsection \<open>What holds of the scheduler at every moment\<close>

text \<open>
  \<open>schedInv ds c\<close>: the items submitted so far and the items still to come make up the
  collection \<open>ds\<close>, in its order; every submitted item is either waiting in the pool or has
  been run; the scheduler is inside the loop body only while an item is at hand; and it
  has returned only with the pool drained.
\<close>

definition schedInv :: "deploymentItem list \<Rightarrow> sched \<Rightarrow> bool" where
  "schedInv ds c =
     (submitted c @ todo c = ds
      \<and> mset (submitted c) = mset (completed c) + mset (queue c)
      \<and> (pc c = AtBarrier \<or> pc c = AtSubmit \<longrightarrow> todo c \<noteq> [])
      \<and> (pc c = Returned \<longrightarrow> queue c = []))"

text \<open>The schedule in which the pool runs everything that is waiting, first in first out.\<close>

definition drain :: "sched \<Rightarrow> action list" where
  "drain c = replicate (length (queue c)) (Worker 0)"

subsection \<open>Concrete items and hook runners\<close>

definition cm2Ref :: ObjectRef where
  "cm2Ref = \<lparr>Group = [], Version = ''v1'', Kind = ''ConfigMap'', Namespace = ''ns1'', Name = ''cm2''\<rparr>"

definition cm2 :: Unstructured where
  "cm2 = \<lparr>objRef = cm2Ref, resourceVersion = [], annotations = [], content = [(''data.b'', ''2'')]\<rparr>"

definition job1Ref :: ObjectRef where
  "job1Ref = \<lparr>Group = ''batch'', Version = ''v1'', Kind = ''Job'', Namespace = ''ns1'', Name = ''migrate''\<rparr>"

definition job1 :: Unstructured where
  "job1 = \<lparr>objRef = job1Ref, resourceVersion = [],
            annotations = [(''kluctl.io/hook'', ''pre-deploy'')], content = []\<rparr>"

definition job1Remote :: Unstructured where
  "job1Remote = job1\<lparr>resourceVersion := ''7''\<rparr>"

text \<open>
  A hook runner for the examples: every item is included, an object is a hook when it
  bears the annotation \<open>kluctl.io/hook\<close>, and running the hooks of a phase list notes the
  phases in the warning ledger under the reference given, so that the phases chosen show.
\<close>

definition notingHooks :: "ObjectRef \<Rightarrow> hooksUtil" where
  "notingHooks r =
     \<lparr>checkInclusionForDeploy = (\<lambda>d. True),
      getHook = (\<lambda>x. map_option (\<lambda>v. [v]) (map_of (annotations x) ''kluctl.io/hook'')),
      runHooks = (\<lambda>k d phases a. fold (addWarning r) phases a)\<rparr>"

definition item :: "bool \<Rightarrow> Unstructured list \<Rightarrow> deploymentItem" where
  "item barrier xs =
     \<lparr>configPath = Some ''.'', configBarrier = Some barrier, objects = xs,
      relToProjectItemDir = ''item''\<rparr>"

section \<open>The command context (cmd/kluctl/commands, withKluctlProjectFromArgs)\<close>

subsection \<open>Repository overrides\<close>

record RepoOverride =
  RepoKey :: string
  IsGroup :: bool
  Override :: string

record GitUrl =
  Host :: string
  Path :: string

definition errorString :: "error \<Rightarrow> string" where
  "errorString e =
     (case e of StatusError st \<Rightarrow> message st | WrappedStatus st \<Rightarrow> message st
      | NoKindMatch s \<Rightarrow> s | Errorf s \<Rightarrow> s)"

text \<open>\<open>fmt.Errorf("prefix: %w", err)\<close>.\<close>

definition wrapError :: "string \<Rightarrow> error \<Rightarrow> error" where
  "wrapError prefix e = Errorf (prefix @ '': '' @ errorString e)"

text \<open>
  \<open>strings.SplitN(s, "=", 2)\<close>: the text before the first \<open>=\<close> and the text after it, or
  \<open>None\<close> when there is no \<open>=\<close> and the result has one element only.
\<close>

definition splitAtEquals :: "string \<Rightarrow> (string \<times> string) option" where
  "splitAtEquals s =
     (case dropWhile (\<lambda>ch. ch \<noteq> CHR ''='') s of
        [] \<Rightarrow> None
      | _ # rest \<Rightarrow> Some (takeWhile (\<lambda>ch. ch \<noteq> CHR ''='') s, rest))"

text \<open>
  \<open>types.ParseRepoKey\<close> and \<open>types.ParseGitUrl\<close> are parameters of \<open>parseRepoOverride\<close>. The
  deprecation notice it prints is not modelled.
\<close>

definition parseRepoOverride ::
    "(string \<Rightarrow> error + string) \<Rightarrow> (string \<Rightarrow> error + GitUrl) \<Rightarrow> string \<Rightarrow> bool \<Rightarrow> bool
       \<Rightarrow> error + RepoOverride" where
  "parseRepoOverride ParseRepoKey ParseGitUrl s isGroup allowLegacy =
     (case splitAtEquals s of
        None \<Rightarrow> Inl (Errorf s)
      | Some (sp0, sp1) \<Rightarrow>
          (case ParseRepoKey sp0 of
             Inr repoKey \<Rightarrow> Inr \<lparr>RepoKey = repoKey, IsGroup = isGroup, Override = sp1\<rparr>
           | Inl err \<Rightarrow>
               if \<not> allowLegacy then Inl err
               else
                 (case ParseGitUrl sp0 of
                    Inl err2 \<Rightarrow> Inl err
                  | Inr u \<Rightarrow>
                      (let x = Host u @ (if take 1 (Path u) = ''/'' then [] else ''/'') @ Path u in
                       case ParseRepoKey x of
                         Inl err2 \<Rightarrow> Inl err
                       | Inr repoKey \<Rightarrow>
                           Inr \<lparr>RepoKey = repoKey, IsGroup = isGroup, Override = sp1\<rparr>))))"

text \<open>
  One of the four loops over the override flags: the overrides parsed so far, or the first
  error, wrapped with the flag's name.
\<close>

fun parseOverrides ::
    "(string \<Rightarrow> error + RepoOverride) \<Rightarrow> string \<Rightarrow> string list \<Rightarrow> RepoOverride list
       \<Rightarrow> error + RepoOverride list" where
  "parseOverrides parse flag [] acc = Inr acc"
| "parseOverrides parse flag (x # xs) acc =
     (case parse x of
        Inl err \<Rightarrow> Inl (wrapError (''invalid '' @ flag) err)
      | Inr ro \<Rightarrow> parseOverrides parse flag xs (acc @ [ro]))"

subsection \<open>Flags, collaborators, deferred calls\<close>

record ProjectFlags =
  LocalGitOverride :: "string list"
  LocalGitGroupOverride :: "string list"
  LocalOciOverride :: "string list"
  LocalOciGroupOverride :: "string list"
  ProjectConfig :: string

record ArgsFlags =
  Arg :: "string list"
  ArgsFromFile :: "string list"

type_synonym vars = "(string \<times> string) list"

record LoadKluctlProjectArgs =
  RepoRoot :: string
  ProjectDir :: string
  ProjectConfigPath :: string
  ExternalArgs :: "vars option"
  GitRP :: "RepoOverride list"
  OciRP :: "RepoOverride list"

text \<open>
  What the function calls and does not define: the file system, the template engine, git,
  the argument parsers and the project loader. \<open>DetectGitRepositoryRoot\<close> returns a path
  and an error, as in Go. The repo caches are known by the overrides they were made with.
\<close>

record 'p commandEnv =
  MkdirTemp :: "error + string"
  NewKluctlJinja2 :: "bool \<Rightarrow> error option"
  GetProjectDir :: "error + string"
  DetectGitRepositoryRoot :: "string \<Rightarrow> string \<times> error option"
  ParseRepoKey :: "string \<Rightarrow> error + string"
  ParseGitUrl :: "string \<Rightarrow> error + GitUrl"
  ParseArgs :: "string list \<Rightarrow> error + vars"
  ConvertArgsToVars :: "vars \<Rightarrow> bool \<Rightarrow> error + vars"
  FromFile :: "string \<Rightarrow> error + vars"
  Merge :: "vars \<Rightarrow> vars \<Rightarrow> vars"
  LoadKluctlProject :: "LoadKluctlProjectArgs \<Rightarrow> string \<Rightarrow> error + 'p"

text \<open>
  A deferred call. Go runs the deferred calls of a function when it returns, the last one
  registered first. The model keeps the stack of calls registered so far, newest first,
  and every \<open>return\<close> gives back the error together with that stack: it is the teardown,
  in the order it runs.
\<close>

datatype deferred =
  RemoveAll string
| J2Close
| CancelContext
| GitRepoCacheClear
| OciRepoCacheClear

text \<open>The loop over \<open>argsFlags.ArgsFromFile\<close>.\<close>

fun mergeArgsFromFile ::
    "(string \<Rightarrow> error + vars) \<Rightarrow> (vars \<Rightarrow> vars \<Rightarrow> vars) \<Rightarrow> string list \<Rightarrow> vars \<Rightarrow> error + vars" where
  "mergeArgsFromFile fromFile merge [] externalArgs = Inr externalArgs"
| "mergeArgsFromFile fromFile merge (f # fs) externalArgs =
     (case fromFile f of
        Inl err \<Rightarrow> Inl err
      | Inr optionArgs2 \<Rightarrow> mergeArgsFromFile fromFile merge fs (merge externalArgs optionArgs2))"

definition loadExternalArgs :: "'p commandEnv \<Rightarrow> ArgsFlags option \<Rightarrow> error + vars option" where
  "loadExternalArgs env argsFlags =
     (case argsFlags of
        None \<Rightarrow> Inr None
      | Some af \<Rightarrow>
          (case ParseArgs env (Arg af) of
             Inl err \<Rightarrow> Inl err
           | Inr optionArgs \<Rightarrow>
               (case ConvertArgsToVars env optionArgs True of
                  Inl err \<Rightarrow> Inl err
                | Inr externalArgs \<Rightarrow>
                    (case mergeArgsFromFile (FromFile env) (Merge env) (ArgsFromFile af) externalArgs of
                       Inl err \<Rightarrow> Inl err
                     | Inr merged \<Rightarrow> Inr (Some merged)))))"

definition withKluctlProjectFromArgs ::
    "'p commandEnv \<Rightarrow> ProjectFlags \<Rightarrow> ArgsFlags option \<Rightarrow> bool \<Rightarrow> bool \<Rightarrow> bool
       \<Rightarrow> ('p \<Rightarrow> error option) \<Rightarrow> error option \<times> deferred list" where
  "withKluctlProjectFromArgs env projectFlags argsFlags internalDeploy strictTemplates forCompletion cb =
     (case MkdirTemp env of
        Inl err \<Rightarrow> (Some (wrapError ''creating temporary project directory failed'' err), [])
      | Inr tmpDir \<Rightarrow>
     (let d1 = [RemoveAll tmpDir] in
      case NewKluctlJinja2 env strictTemplates of
        Some err \<Rightarrow> (Some err, d1)
      | None \<Rightarrow>
     (let d2 = J2Close # d1 in
      case GetProjectDir env of
        Inl err \<Rightarrow> (Some err, d2)
      | Inr projectDir \<Rightarrow>
     (let repoRoot0 = (if \<not> internalDeploy then fst (DetectGitRepositoryRoot env projectDir) else []);
          repoRoot = (if repoRoot0 = [] then projectDir else repoRoot0);
          d3 = CancelContext # d2;
          parse = parseRepoOverride (ParseRepoKey env) (ParseGitUrl env)
      in
      case parseOverrides (\<lambda>x. parse x False True) ''--local-git-override''
             (LocalGitOverride projectFlags) [] of
        Inl err \<Rightarrow> (Some err, d3)
      | Inr git1 \<Rightarrow>
     (case parseOverrides (\<lambda>x. parse x True True) ''--local-git-group-override''
             (LocalGitGroupOverride projectFlags) git1 of
        Inl err \<Rightarrow> (Some err, d3)
      | Inr gitRepoOverrides \<Rightarrow>
     (case parseOverrides (\<lambda>x. parse x False False) ''--local-oci-override''
             (LocalOciOverride projectFlags) [] of
        Inl err \<Rightarrow> (Some err, d3)
      | Inr oci1 \<Rightarrow>
     (case parseOverrides (\<lambda>x. parse x True False) ''--local-oci-group-override''
             (LocalOciGroupOverride projectFlags) oci1 of
        Inl err \<Rightarrow> (Some err, d3)
      | Inr ociRepoOverrides \<Rightarrow>
     (let gitRp = gitRepoOverrides;
          d4 = GitRepoCacheClear # d3;
          ociRp = ociRepoOverrides;
          d5 = GitRepoCacheClear # d4
      in
      case loadExternalArgs env argsFlags of
        Inl err \<Rightarrow> (Some err, d5)
      | Inr externalArgs \<Rightarrow>
     (let loadArgs = \<lparr>RepoRoot = repoRoot, ProjectDir = projectDir,
                       ProjectConfigPath = ProjectConfig projectFlags,
                       ExternalArgs = externalArgs, GitRP = gitRp, OciRP = ociRp\<rparr>
      in
      case LoadKluctlProject env loadArgs tmpDir of
        Inl err \<Rightarrow> (Some err, d5)
      | Inr p \<Rightarrow> (cb p, d5))))))))))"

text \<open>A command environment in which every step succeeds.\<close>

definition plainEnv :: "string commandEnv" where
  "plainEnv =
     \<lparr>MkdirTemp = Inr ''/tmp/project-1'',
      NewKluctlJinja2 = (\<lambda>strict. None),
      GetProjectDir = Inr ''/work/project'',
      DetectGitRepositoryRoot = (\<lambda>dir. (dir, None)),
      ParseRepoKey = (\<lambda>s. Inr s),
      ParseGitUrl = (\<lambda>s. Inl (Errorf ''not a git url'')),
      ParseArgs = (\<lambda>xs. Inr []),
      ConvertArgsToVars = (\<lambda>v strict. Inr v),
      FromFile = (\<lambda>f. Inr []),
      Merge = (\<lambda>v w. v @ w),
      LoadKluctlProject = (\<lambda>la tmp. Inr (ProjectDir la))\<rparr>"

definition noFlags :: ProjectFlags where
  "noFlags = \<lparr>LocalGitOverride = [], LocalGitGroupOverride = [], LocalOciOverride = [],
               LocalOciGroupOverride = [], ProjectConfig = []\<rparr>"

section \<open>The variable loader (pkg/vars/vars\_loader.go)\<close>

subsection \<open>Documents and the store\<close>

text \<open>
  \<open>uo.UnstructuredObject\<close> and the other things a \<open>VarsSource\<close> points to are kept as
  free-form documents: the declarations of \<open>types.VarsSource\<close> and of the structs it points
  to are not in the source files at hand, only the fields that the loader reads.
\<close>

datatype "value" = Null | Bln bool | Str string | Arr "value list" | Obj "(string \<times> value) list"

text \<open>
  \<open>types.VarsSource\<close>: every field the loader looks at is a pointer. A pointer is an address
  in the store, nil is \<open>None\<close>.
\<close>

record VarsSource =
  IgnoreMissing :: "nat option"
  Values :: "nat option"
  File :: "nat option"
  Git :: "nat option"
  ClusterConfigMap :: "nat option"
  ClusterSecret :: "nat option"
  SystemEnvVars :: "nat option"
  Http :: "nat option"
  AwsSecretsManager :: "nat option"
  Vault :: "nat option"

text \<open>
  The store: the \<open>VarsSource\<close> structs and the documents that pointers lead to, each by
  address, and the next address that \<open>new\<close> hands out.
\<close>

record heap =
  structs :: "nat \<Rightarrow> VarsSource option"
  cells :: "nat \<Rightarrow> value option"
  fresh :: nat

definition pointerFields :: "VarsSource \<Rightarrow> nat option list" where
  "pointerFields s =
     [IgnoreMissing s, Values s, File s, Git s, ClusterConfigMap s, ClusterSecret s,
      SystemEnvVars s, Http s, AwsSecretsManager s, Vault s]"

definition pointers :: "VarsSource \<Rightarrow> nat list" where
  "pointers s = List.map_filter id (pointerFields s)"

definition zeroVarsSource :: VarsSource where
  "zeroVarsSource =
     \<lparr>IgnoreMissing = None, Values = None, File = None, Git = None, ClusterConfigMap = None,
      ClusterSecret = None, SystemEnvVars = None, Http = None, AwsSecretsManager = None,
      Vault = None\<rparr>"

text \<open>\<open>var source types.VarsSource\<close>: a new struct with every field nil.\<close>

definition newVarsSource :: "heap \<Rightarrow> nat \<times> heap" where
  "newVarsSource h =
     (fresh h, h\<lparr>structs := (structs h)(fresh h \<mapsto> zeroVarsSource), fresh := Suc (fresh h)\<rparr>)"

text \<open>
  Modelled from the spec: \<open>utils.DeepCopy\<close> is not in the source files at hand. A deep copy
  gives the destination struct, for every pointer of the source struct that is not nil, a
  pointer to a new document with the same content; no pointer of the copy is a pointer of
  the original. \<open>copyPointer\<close> copies what one pointer leads to.
\<close>

definition copyPointer :: "nat option \<Rightarrow> heap \<Rightarrow> nat option \<times> heap" where
  "copyPointer p h =
     (case p of
        None \<Rightarrow> (None, h)
      | Some q \<Rightarrow> (Some (fresh h), h\<lparr>cells := (cells h)(fresh h := cells h q), fresh := Suc (fresh h)\<rparr>))"

definition DeepCopy :: "nat \<Rightarrow> nat \<Rightarrow> heap \<Rightarrow> error + heap" where
  "DeepCopy dst src h =
     (case structs h src of
        None \<Rightarrow> Inl (Errorf ''copy from nil'')
      | Some s \<Rightarrow>
          (let (p1, h1) = copyPointer (IgnoreMissing s) h;
               (p2, h2) = copyPointer (Values s) h1;
               (p3, h3) = copyPointer (File s) h2;
               (p4, h4) = copyPointer (Git s) h3;
               (p5, h5) = copyPointer (ClusterConfigMap s) h4;
               (p6, h6) = copyPointer (ClusterSecret s) h5;
               (p7, h7) = copyPointer (SystemEnvVars s) h6;
               (p8, h8) = copyPointer (Http s) h7;
               (p9, h9) = copyPointer (AwsSecretsManager s) h8;
               (p10, h10) = copyPointer (Vault s) h9
           in Inr (h10\<lparr>structs := (structs h10)(dst \<mapsto>
                \<lparr>IgnoreMissing = p1, Values = p2, File = p3, Git = p4, ClusterConfigMap = p5,
                 ClusterSecret = p6, SystemEnvVars = p7, Http = p8, AwsSecretsManager = p9,
                 Vault = p10\<rparr>)\<rparr>)))"

subsection \<open>Reading documents\<close>

fun lookupField :: "string \<Rightarrow> value \<Rightarrow> value option" where
  "lookupField key (Obj kvs) = map_of kvs key"
| "lookupField key _ = None"

definition strField :: "string \<Rightarrow> value \<Rightarrow> string" where
  "strField key v = (case lookupField key v of Some (Str s) \<Rightarrow> s | _ \<Rightarrow> [])"

definition valueField :: "string \<Rightarrow> value \<Rightarrow> value" where
  "valueField key v = (case lookupField key v of Some w \<Rightarrow> w | None \<Rightarrow> Null)"

definition boolAt :: "heap \<Rightarrow> nat \<Rightarrow> bool" where
  "boolAt h p = (case cells h p of Some (Bln b) \<Rightarrow> b | _ \<Rightarrow> False)"

definition stringAt :: "heap \<Rightarrow> nat \<Rightarrow> string" where
  "stringAt h p = (case cells h p of Some (Str s) \<Rightarrow> s | _ \<Rightarrow> [])"

definition valueAt :: "heap \<Rightarrow> nat \<Rightarrow> value" where
  "valueAt h p = (case cells h p of Some v \<Rightarrow> v | None \<Rightarrow> Null)"

text \<open>\<open>o.GetNestedField(k1, k2)\<close>: the value, whether it was found, or an error.\<close>

fun GetNestedField :: "value \<Rightarrow> string list \<Rightarrow> error + value option" where
  "GetNestedField v [] = Inr (Some v)"
| "GetNestedField (Obj kvs) (key # keys) =
     (case map_of kvs key of None \<Rightarrow> Inr None | Some w \<Rightarrow> GetNestedField w keys)"
| "GetNestedField v (key # keys) = Inl (Errorf (key @ '' is not a map''))"

subsection \<open>What the loader calls\<close>

text \<open>
  The variable context (\<open>VarsCtx\<close>, of type \<open>'c\<close> here) with its methods, the template
  engine, sops, YAML, the environment, git, AWS, Vault and the cluster are parameters.
  \<open>RenderStruct\<close> works in place on what the pointer it is given leads to: it receives the
  documents behind the struct's pointers, in the order of the fields, and returns what they
  are afterwards, together with its error. \<open>loadHttp\<close> is defined in another file; like its
  siblings it is given the documents of the source it is called with.
\<close>

record VarsCluster =
  getSingleObject :: "ObjectRef \<Rightarrow> error + value"
  listObjects :: "string \<Rightarrow> string \<Rightarrow> value \<Rightarrow> error + value list"

record 'c VarsLoader =
  k8s :: "VarsCluster option"
  awsFactory :: bool
  ToMap :: "'c \<Rightarrow> error + value"
  RenderStruct :: "value \<Rightarrow> value list \<Rightarrow> value list \<times> error option"
  Update :: "value \<Rightarrow> 'c \<Rightarrow> 'c"
  UpdateChild :: "string \<Rightarrow> value \<Rightarrow> 'c \<Rightarrow> 'c"
  RenderFile :: "'c \<Rightarrow> string \<Rightarrow> string list \<Rightarrow> error + string"
  RenderString :: "'c \<Rightarrow> string \<Rightarrow> error + string"
  MaybeDecrypt :: "string \<Rightarrow> string \<Rightarrow> error + string"
  ReadYamlString :: "string \<Rightarrow> error + value"
  GetNestedObject :: "value \<Rightarrow> string \<Rightarrow> error + value option"
  IterateLeafs :: "value \<Rightarrow> (string list \<times> value) list"
  ToJsonPath :: "string list \<Rightarrow> string"
  SetNestedField :: "value \<Rightarrow> value \<Rightarrow> string list \<Rightarrow> error + value"
  LookupEnv :: "string \<Rightarrow> string option"
  GetClonedDir :: "string \<Rightarrow> string \<Rightarrow> error + string"
  GetAwsSecretsManagerSecret :: "string \<Rightarrow> string \<Rightarrow> string \<Rightarrow> error + string"
  IsResourceNotFound :: "error \<Rightarrow> bool"
  VaultGetSecret :: "string \<Rightarrow> string \<Rightarrow> error + string option"
  DecodeBase64 :: "string \<Rightarrow> error + string"
  loadHttp :: "'c \<Rightarrow> value \<Rightarrow> bool \<Rightarrow> string \<Rightarrow> error option \<times> 'c"

subsection \<open>The loaders\<close>

definition mergeVars :: "'c VarsLoader \<Rightarrow> 'c \<Rightarrow> value \<Rightarrow> string \<Rightarrow> 'c" where
  "mergeVars v varsCtx newVars rootKey =
     (if rootKey = [] then Update v newVars varsCtx else UpdateChild v rootKey newVars varsCtx)"

text \<open>
  The end of \<open>loadFile\<close> and of \<open>loadFromString\<close>: take the document under \<open>rootKey\<close> when one
  is asked for, and merge.
\<close>

definition mergeUnderRoot ::
    "'c VarsLoader \<Rightarrow> 'c \<Rightarrow> value \<Rightarrow> string \<Rightarrow> string \<Rightarrow> error option \<times> 'c" where
  "mergeUnderRoot v varsCtx newVars rootKey noRoot =
     (if rootKey \<noteq> [] then
        (case GetNestedObject v newVars rootKey of
           Inl err \<Rightarrow> (Some err, varsCtx)
         | Inr None \<Rightarrow> (Some (Errorf noRoot), varsCtx)
         | Inr (Some nested) \<Rightarrow> (None, mergeVars v varsCtx nested rootKey))
      else (None, mergeVars v varsCtx newVars rootKey))"

definition loadFile ::
    "'c VarsLoader \<Rightarrow> 'c \<Rightarrow> string \<Rightarrow> bool \<Rightarrow> string list \<Rightarrow> string \<Rightarrow> error option \<times> 'c" where
  "loadFile v varsCtx path ignoreMissing searchDirs rootKey =
     (case RenderFile v varsCtx path searchDirs of
        Inl err \<Rightarrow>
          if ignoreMissing \<and> errorString err = ''template '' @ path @ '' not found''
          then (None, varsCtx)
          else (Some (wrapError (''failed to render vars file '' @ path) err), varsCtx)
      | Inr rendered \<Rightarrow>
          (case MaybeDecrypt v path rendered of
             Inl err \<Rightarrow> (Some (wrapError (''failed to decrypt vars file '' @ path) err), varsCtx)
           | Inr decrypted \<Rightarrow>
               (case ReadYamlString v decrypted of
                  Inl err \<Rightarrow> (Some err, varsCtx)
                | Inr newVars \<Rightarrow>
                    mergeUnderRoot v varsCtx newVars rootKey
                      (''vars from '' @ path @ '' have no root '' @ rootKey))))"

definition renderYamlString :: "'c VarsLoader \<Rightarrow> 'c \<Rightarrow> string \<Rightarrow> error + value" where
  "renderYamlString v varsCtx s =
     (case RenderString v varsCtx s of
        Inl err \<Rightarrow> Inl err
      | Inr ret \<Rightarrow> ReadYamlString v ret)"

definition loadFromString ::
    "'c VarsLoader \<Rightarrow> 'c \<Rightarrow> string \<Rightarrow> string \<Rightarrow> string \<Rightarrow> error option \<times> 'c" where
  "loadFromString v varsCtx s secretType rootKey =
     (case renderYamlString v varsCtx s of
        Inl err \<Rightarrow> (Some err, varsCtx)
      | Inr newVars \<Rightarrow>
          mergeUnderRoot v varsCtx newVars rootKey (secretType @ '' secret has no root '' @ rootKey))"

text \<open>
  The callback of \<open>loadSystemEnvs\<close> for one leaf: the document built so far is updated, or
  left as it is when the variable is missing and may be, or an error ends the iteration.
\<close>

definition splitAtColon :: "string \<Rightarrow> (string \<times> string) option" where
  "splitAtColon s =
     (case dropWhile (\<lambda>ch. ch \<noteq> CHR '':'') s of
        [] \<Rightarrow> None
      | _ # rest \<Rightarrow> Some (takeWhile (\<lambda>ch. ch \<noteq> CHR '':'') s, rest))"

definition systemEnvLeaf ::
    "'c VarsLoader \<Rightarrow> bool \<Rightarrow> string list \<times> value \<Rightarrow> value \<Rightarrow> error + value" where
  "systemEnvLeaf v ignoreMissing leaf newVars =
     (case snd leaf of
        Str envName0 \<Rightarrow>
          (let (envName, defaultValue, hasDefaultValue) =
                 (case splitAtColon envName0 of
                    Some (n, d) \<Rightarrow> (n, d, True)
                  | None \<Rightarrow> (envName0, [], False));
               found =
                 (case LookupEnv v envName of
                    Some ev \<Rightarrow> Inr (Some ev)
                  | None \<Rightarrow>
                      if hasDefaultValue
                      then Inr (Some (if defaultValue = [] then [CHR 0x22, CHR 0x22] else defaultValue))
                      else if ignoreMissing then Inr None
                      else Inl (Errorf (''environment variable '' @ envName @ '' not found for ''
                                  @ ToJsonPath v (fst leaf))))
           in case found of
                Inl err \<Rightarrow> Inl err
              | Inr None \<Rightarrow> Inr newVars
              | Inr (Some envValueStr) \<Rightarrow>
                  (case ReadYamlString v envValueStr of
                     Inl err \<Rightarrow> Inl (wrapError (''failed to parse env value '' @ envValueStr) err)
                   | Inr envValue \<Rightarrow>
                       (case SetNestedField v newVars envValue (fst leaf) of
                          Inl err \<Rightarrow>
                            Inl (wrapError (''failed to set value for '' @ ToJsonPath v (fst leaf)) err)
                        | Inr newVars' \<Rightarrow> Inr newVars')))
      | _ \<Rightarrow> Inl (Errorf (''value at '' @ ToJsonPath v (fst leaf) @ '' is not a string'')))"

fun systemEnvLeafs ::
    "'c VarsLoader \<Rightarrow> bool \<Rightarrow> (string list \<times> value) list \<Rightarrow> value \<Rightarrow> error + value" where
  "systemEnvLeafs v ignoreMissing [] newVars = Inr newVars"
| "systemEnvLeafs v ignoreMissing (leaf # leafs) newVars =
     (case systemEnvLeaf v ignoreMissing leaf newVars of
        Inl err \<Rightarrow> Inl err
      | Inr newVars' \<Rightarrow> systemEnvLeafs v ignoreMissing leafs newVars')"

definition loadSystemEnvs ::
    "'c VarsLoader \<Rightarrow> 'c \<Rightarrow> value \<Rightarrow> bool \<Rightarrow> string \<Rightarrow> error option \<times> 'c" where
  "loadSystemEnvs v varsCtx systemEnvVars ignoreMissing rootKey =
     (case systemEnvLeafs v ignoreMissing (IterateLeafs v systemEnvVars) (Obj []) of
        Inl err \<Rightarrow> (Some err, varsCtx)
      | Inr newVars \<Rightarrow> (None, mergeVars v varsCtx newVars rootKey))"

definition loadAwsSecretsManager ::
    "'c VarsLoader \<Rightarrow> 'c \<Rightarrow> value \<Rightarrow> bool \<Rightarrow> string \<Rightarrow> error option \<times> 'c" where
  "loadAwsSecretsManager v varsCtx aws ignoreMissing rootKey =
     (if \<not> awsFactory v then (Some (Errorf ''no AWS client factory provided''), varsCtx)
      else
        (case GetAwsSecretsManagerSecret v (strField ''profile'' aws) (strField ''region'' aws)
                (strField ''secretName'' aws) of
           Inl err \<Rightarrow>
             if IsResourceNotFound v err \<and> ignoreMissing then (None, varsCtx)
             else (Some err, varsCtx)
         | Inr secret \<Rightarrow> loadFromString v varsCtx secret ''awsSecretsManager'' rootKey))"

definition loadVault ::
    "'c VarsLoader \<Rightarrow> 'c \<Rightarrow> value \<Rightarrow> bool \<Rightarrow> string \<Rightarrow> error option \<times> 'c" where
  "loadVault v varsCtx vault ignoreMissing rootKey =
     (case VaultGetSecret v (strField ''address'' vault) (strField ''path'' vault) of
        Inl err \<Rightarrow> (Some err, varsCtx)
      | Inr None \<Rightarrow>
          if ignoreMissing then (None, varsCtx)
          else (Some (Errorf ''the specified vault secret was not found''), varsCtx)
      | Inr (Some secret) \<Rightarrow> loadFromString v varsCtx secret ''vault'' rootKey)"

definition loadGit ::
    "'c VarsLoader \<Rightarrow> 'c \<Rightarrow> value \<Rightarrow> bool \<Rightarrow> string \<Rightarrow> error option \<times> 'c" where
  "loadGit v varsCtx gitFile ignoreMissing rootKey =
     (case GetClonedDir v (strField ''url'' gitFile) (strField ''ref'' gitFile) of
        Inl err \<Rightarrow> (Some err, varsCtx)
      | Inr clonedDir \<Rightarrow>
          loadFile v varsCtx (strField ''path'' gitFile) ignoreMissing [clonedDir] rootKey)"

definition loadFromK8sObject ::
    "'c VarsLoader \<Rightarrow> 'c \<Rightarrow> value \<Rightarrow> string \<Rightarrow> string \<Rightarrow> string \<Rightarrow> bool \<Rightarrow> bool
       \<Rightarrow> error option \<times> 'c" where
  "loadFromK8sObject v varsCtx varsSource kind key rootKey ignoreMissing base64Decode =
     (case k8s v of
        None \<Rightarrow> (Some (Errorf ''loading vars from cluster is disabled''), varsCtx)
      | Some k \<Rightarrow>
          (let found =
                 (if strField ''name'' varsSource \<noteq> [] then
                    (case getSingleObject k
                            \<lparr>Group = [], Version = ''v1'', Kind = kind,
                             Namespace = strField ''namespace'' varsSource,
                             Name = strField ''name'' varsSource\<rparr> of
                       Inl err \<Rightarrow> if ignoreMissing \<and> IsNotFound err then Inr None else Inl err
                     | Inr ob \<Rightarrow> Inr (Some ob))
                  else
                    (case listObjects k kind (strField ''namespace'' varsSource)
                            (valueField ''labels'' varsSource) of
                       Inl err \<Rightarrow> Inl err
                     | Inr [] \<Rightarrow>
                         if ignoreMissing then Inr None
                         else Inl (Errorf ''no object found with labels'')
                     | Inr [ob] \<Rightarrow> Inr (Some ob)
                     | Inr _ \<Rightarrow> Inl (Errorf ''found more than one objects with labels'')))
           in case found of
                Inl err \<Rightarrow> (Some err, varsCtx)
              | Inr None \<Rightarrow> (None, varsCtx)
              | Inr (Some ob) \<Rightarrow>
                  (case GetNestedField ob [''data'', key] of
                     Inl err \<Rightarrow> (Some err, varsCtx)
                   | Inr None \<Rightarrow> (Some (Errorf (''key '' @ key @ '' not found on cluster'')), varsCtx)
                   | Inr (Some f) \<Rightarrow>
                       (let decoded =
                              (case f of
                                 Str s \<Rightarrow> if base64Decode then DecodeBase64 v s else Inr s
                               | _ \<Rightarrow> Inr [])
                        in case decoded of
                             Inl err \<Rightarrow> (Some err, varsCtx)
                           | Inr val \<Rightarrow>
                               (case loadFromString v varsCtx val ''k8s'' rootKey of
                                  (Some err, c) \<Rightarrow>
                                    (Some (wrapError (''failed to load vars from kubernetes object and key '' @ key) err), c)
                                | (None, c) \<Rightarrow> (None, c))))))"

subsection \<open>LoadVars\<close>

text \<open>
  \<open>RenderStruct(&source, ...)\<close>: the documents behind the pointers of the struct at \<open>src\<close> are
  replaced, in place, by what the engine made of them.
\<close>

definition writeCell :: "nat \<times> value \<Rightarrow> heap \<Rightarrow> heap" where
  "writeCell pw h = h\<lparr>cells := (cells h)(fst pw \<mapsto> snd pw)\<rparr>"

definition renderInPlace :: "'c VarsLoader \<Rightarrow> value \<Rightarrow> nat \<Rightarrow> heap \<Rightarrow> error option \<times> heap" where
  "renderInPlace v globals src h =
     (case structs h src of
        None \<Rightarrow> (Some (Errorf ''render of nil''), h)
      | Some s \<Rightarrow>
          (let ps = filter (\<lambda>p. cells h p \<noteq> None) (pointers s);
               (rendered, err) = RenderStruct v globals (map (valueAt h) ps)
           in (err, fold writeCell (zip ps rendered) h)))"

text \<open>
  The chain of \<open>if source.Values != nil ... else if source.File != nil ...\<close> that ends
  \<open>LoadVars\<close>, on the rendered copy \<open>s\<close> in the store \<open>h\<close>: the first pointer that is not
  nil chooses the loader.
\<close>

definition loadRendered ::
    "'c VarsLoader \<Rightarrow> 'c \<Rightarrow> VarsSource \<Rightarrow> heap \<Rightarrow> bool \<Rightarrow> string list \<Rightarrow> string
       \<Rightarrow> error option \<times> 'c" where
  "loadRendered v varsCtx s h ignoreMissing searchDirs rootKey =
     (case Values s of Some p \<Rightarrow> (None, mergeVars v varsCtx (valueAt h p) rootKey) | None \<Rightarrow>
     (case File s of
        Some p \<Rightarrow> loadFile v varsCtx (stringAt h p) ignoreMissing searchDirs rootKey
      | None \<Rightarrow>
     (case Git s of
        Some p \<Rightarrow> loadGit v varsCtx (valueAt h p) ignoreMissing rootKey
      | None \<Rightarrow>
     (case ClusterConfigMap s of
        Some p \<Rightarrow> loadFromK8sObject v varsCtx (valueAt h p) ''ConfigMap''
                    (strField ''key'' (valueAt h p)) rootKey ignoreMissing False
      | None \<Rightarrow>
     (case ClusterSecret s of
        Some p \<Rightarrow> loadFromK8sObject v varsCtx (valueAt h p) ''Secret''
                    (strField ''key'' (valueAt h p)) rootKey ignoreMissing True
      | None \<Rightarrow>
     (case SystemEnvVars s of
        Some p \<Rightarrow> loadSystemEnvs v varsCtx (valueAt h p) ignoreMissing rootKey
      | None \<Rightarrow>
     (case Http s of
        Some p \<Rightarrow> loadHttp v varsCtx (valueAt h p) ignoreMissing rootKey
      | None \<Rightarrow>
     (case AwsSecretsManager s of
        Some p \<Rightarrow> loadAwsSecretsManager v varsCtx (valueAt h p) ignoreMissing rootKey
      | None \<Rightarrow>
     (case Vault s of
        Some p \<Rightarrow> loadVault v varsCtx (valueAt h p) ignoreMissing rootKey
      | None \<Rightarrow> (Some (Errorf ''invalid vars source''), varsCtx))))))))))"

text \<open>
  \<open>LoadVars\<close> returns its error; the model returns with it the variable context and the
  store as the call leaves them.
\<close>

definition LoadVars ::
    "'c VarsLoader \<Rightarrow> 'c \<Rightarrow> nat \<Rightarrow> string list \<Rightarrow> string \<Rightarrow> heap \<Rightarrow> error option \<times> 'c \<times> heap" where
  "LoadVars v varsCtx sourceIn searchDirs rootKey h0 =
     (let (source, h1) = newVarsSource h0 in
      case DeepCopy source sourceIn h1 of
        Inl err \<Rightarrow> (Some err, varsCtx, h1)
      | Inr h2 \<Rightarrow>
     (case ToMap v varsCtx of
        Inl err \<Rightarrow> (Some err, varsCtx, h2)
      | Inr globals \<Rightarrow>
     (case renderInPlace v globals source h2 of
        (Some err, h3) \<Rightarrow> (Some err, varsCtx, h3)
      | (None, h3) \<Rightarrow>
     (let s = (case structs h3 source of Some s' \<Rightarrow> s' | None \<Rightarrow> zeroVarsSource);
          ignoreMissing = (case IgnoreMissing s of Some p \<Rightarrow> boolAt h3 p | None \<Rightarrow> False);
          (err, varsCtx') = loadRendered v varsCtx s h3 ignoreMissing searchDirs rootKey
      in (err, varsCtx', h3)))))"

text \<open>\<open>LoadVarsList\<close>: the sources in order, until the first error.\<close>

fun LoadVarsList ::
    "'c VarsLoader \<Rightarrow> 'c \<Rightarrow> nat list \<Rightarrow> string list \<Rightarrow> string \<Rightarrow> heap
       \<Rightarrow> error option \<times> 'c \<times> heap" where
  "LoadVarsList v varsCtx [] searchDirs rootKey h = (None, varsCtx, h)"
| "LoadVarsList v varsCtx (src # srcs) searchDirs rootKey h =
     (case LoadVars v varsCtx src searchDirs rootKey h of
        (Some err, c, h') \<Rightarrow> (Some err, c, h')
      | (None, c, h') \<Rightarrow> LoadVarsList v c srcs searchDirs rootKey h')"

subsection \<open>What a call leaves alone\<close>

text \<open>
  \<open>unchangedBelow n h h'\<close>: every struct and every document at an address below \<open>n\<close> is in
  \<open>h'\<close> what it was in \<open>h\<close>.
\<close>

definition unchangedBelow :: "nat \<Rightarrow> heap \<Rightarrow> heap \<Rightarrow> bool" where
  "unchangedBelow n h h' = (\<forall>p < n. cells h' p = cells h p \<and> structs h' p = structs h p)"

subsection \<open>A concrete loader and store\<close>

text \<open>
  A loader whose variable context is the list of documents merged so far. Its template
  engine replaces every string of the struct by \<open>vars-prod.yaml\<close>; the file of that name
  holds one variable.
\<close>

definition plainLoader :: "value list VarsLoader" where
  "plainLoader =
     \<lparr>k8s = None, awsFactory = False,
      ToMap = (\<lambda>c. Inr (Arr c)),
      RenderStruct = (\<lambda>globals vs. (map (\<lambda>w. case w of Str s \<Rightarrow> Str ''vars-prod.yaml'' | _ \<Rightarrow> w) vs, None)),
      Update = (\<lambda>w c. c @ [w]),
      UpdateChild = (\<lambda>key w c. c @ [Obj [(key, w)]]),
      RenderFile = (\<lambda>c path dirs. if path = ''vars-prod.yaml'' then Inr ''a: 1'' else Inl (Errorf ''not found'')),
      RenderString = (\<lambda>c s. Inr s),
      MaybeDecrypt = (\<lambda>path s. Inr s),
      ReadYamlString = (\<lambda>s. Inr (Obj [(''a'', Str ''1'')])),
      GetNestedObject = (\<lambda>w key. Inr (lookupField key w)),
      IterateLeafs = (\<lambda>w. []),
      ToJsonPath = concat,
      SetNestedField = (\<lambda>w x path. Inr w),
      LookupEnv = (\<lambda>name. None),
      GetClonedDir = (\<lambda>url ref. Inl (Errorf ''no git'')),
      GetAwsSecretsManagerSecret = (\<lambda>profile region name. Inl (Errorf ''no aws'')),
      IsResourceNotFound = (\<lambda>e. False),
      VaultGetSecret = (\<lambda>address path. Inr None),
      DecodeBase64 = (\<lambda>s. Inr s),
      loadHttp = (\<lambda>c w ignoreMissing rootKey. (None, c))\<rparr>"

text \<open>
  A store with one \<open>VarsSource\<close> at address 0: its \<open>File\<close> points to address 1, which holds
  a template for a file name.
\<close>

definition fileSource :: VarsSource where
  "fileSource = zeroVarsSource\<lparr>File := Some 1\<rparr>"

definition fileHeap :: heap where
  "fileHeap = \<lparr>structs = [0 \<mapsto> fileSource], cells = [1 \<mapsto> Str ''vars-{{ env }}.yaml''], fresh = 2\<rparr>"

section \<open>Properties of the apply engine\<close>

subsection \<open>Every step respects the options\<close>

lemma follows_refl: "follows a a"
  by (simp add: follows_def)

lemma follows_trans: "follows a b \<Longrightarrow> follows b c \<Longrightarrow> follows a c"
  unfolding follows_def by auto

lemma follows_handleResult: "follows a (handleResult x hook a)"
  by (simp add: follows_def handleResult_def Let_def)

lemma follows_handleError: "follows a (handleError r e a)"
  by (simp add: follows_def handleError_def addError_def)

lemma follows_addWarning: "follows a (addWarning r w a)"
  by (simp add: follows_def addWarning_def)

lemma follows_handleApiWarnings: "follows a (handleApiWarnings r ws a)"
  by (simp add: follows_def handleApiWarnings_def addApiWarnings_def)

lemma follows_emit:
  "dryRunOf ev = None \<or> dryRunOf ev = Some (dryRun (opts a)) \<Longrightarrow> follows a (emit ev a)"
  by (simp add: follows_def emit_def)

lemma follows_call:
  "dryRunOf ev = None \<or> dryRunOf ev = Some (dryRun (opts a))
   \<Longrightarrow> follows a (handleApiWarnings r ws (emit ev a))"
  by (rule follows_trans [OF follows_emit follows_handleApiWarnings])

lemma follows_fold_warnings:
  "follows a (fold (\<lambda>lo. addWarning r (f lo)) los a)"
proof (induction los arbitrary: a)
  case Nil
  show ?case by (simp add: follows_refl)
next
  case (Cons lo los)
  have "follows a (addWarning r (f lo) a)" by (rule follows_addWarning)
  moreover have "follows (addWarning r (f lo) a) (fold (\<lambda>lo. addWarning r (f lo)) los (addWarning r (f lo) a))"
    by (rule Cons.IH)
  ultimately show ?case by (auto intro: follows_trans)
qed

lemma follows_deleteObject: "follows a (snd (deleteObject k r a))"
  unfolding deleteObject_def Let_def
  by (auto split: prod.splits option.splits
      intro!: follows_call follows_trans [OF follows_call follows_handleError])

lemma follows_retryApplyForceReplace: "follows a (retryApplyForceReplace k x hook e a)"
proof -
  obtain deleted a1 where d: "deleteObject k (RefFromObject x) a = (deleted, a1)"
    by (cases "deleteObject k (RefFromObject x) a")
  have f1: "follows a a1" using follows_deleteObject [of a k "RefFromObject x"] d by simp
  have o1: "opts a1 = opts a" using f1 by (simp add: follows_def)
  show ?thesis
    unfolding retryApplyForceReplace_def Let_def d
    using f1
    by (auto split: prod.splits sum.splits simp: o1
        intro: follows_handleError follows_trans [OF f1 follows_handleResult]
           follows_trans [OF f1 follows_trans [OF follows_call follows_handleError]]
           follows_trans [OF f1 follows_trans [OF follows_call follows_handleResult]])
qed

lemma follows_retryApplyWithReplace: "follows a (retryApplyWithReplace k x hook remote e a)"
  unfolding retryApplyWithReplace_def Let_def
  by (auto split: prod.splits sum.splits option.splits
      intro: follows_handleError
         follows_trans [OF follows_call follows_retryApplyForceReplace]
         follows_trans [OF follows_call follows_handleResult])


lemma follows_forcedPatch:
  assumes "patchForceDryRun ov = dryRun (opts a1)"
  shows "follows a1 (case PatchObject k (issued a1) x2 ov of
        (apiWarnings, res) \<Rightarrow>
          (case res of Inl e' \<Rightarrow> handleError r e' (handleApiWarnings r apiWarnings (emit (PatchCall x2 ov) a1))
           | Inr r' \<Rightarrow> handleResult r' hook (handleApiWarnings r apiWarnings (emit (PatchCall x2 ov) a1))))"
proof -
  have c: "follows a1 (handleApiWarnings r ws (emit (PatchCall x2 ov) a1))" for ws
    by (rule follows_call) (simp add: assms)
  show ?thesis
    by (auto split: prod.splits sum.splits
        intro: follows_trans [OF c follows_handleError] follows_trans [OF c follows_handleResult])
qed

lemma follows_retryApplyWithConflicts: "follows a (retryApplyWithConflicts k x hook remote e a)"
proof -
  define r where "r = RefFromObject x"
  define a0 where "a0 = (if remote = None then handleError r e a else a)"
  have f0: "follows a a0" by (simp add: a0_def follows_refl follows_handleError)
  define resolved where "resolved =
            (if \<not> forceApply (opts a0) then
               (case asStatusError e of
                  None \<Rightarrow> Inl (handleError r e a0)
                | Some st \<Rightarrow>
                    (case ResolveFieldManagerConflicts k x remote st of
                       Inl e' \<Rightarrow> Inl (handleError r e' a0)
                     | Inr (x3, lostOwnership) \<Rightarrow>
                         Inr (x3, fold (\<lambda>lo. addWarning r (lostOwnershipWarning lo)) lostOwnership a0)))
             else Inr (x, a0))"
  have res: "follows a0 (case resolved of Inl a' \<Rightarrow> a' | Inr (x2, a1) \<Rightarrow> a1)"
    unfolding resolved_def
    by (auto split: option.splits sum.splits prod.splits
        intro: follows_handleError follows_fold_warnings follows_refl)
  have eq: "retryApplyWithConflicts k x hook remote e a =
      (case resolved of
           Inl a' \<Rightarrow> a'
         | Inr (x2, a1) \<Rightarrow>
             (case PatchObject k (issued a1) x2 \<lparr>patchForceDryRun = dryRun (opts a1), patchForceApply = True\<rparr> of
               (apiWarnings, res) \<Rightarrow>
              (case res of
                   Inl e' \<Rightarrow> handleError r e' (handleApiWarnings r apiWarnings (emit (PatchCall x2 \<lparr>patchForceDryRun = dryRun (opts a1), patchForceApply = True\<rparr>) a1))
                 | Inr r' \<Rightarrow> handleResult r' hook (handleApiWarnings r apiWarnings (emit (PatchCall x2 \<lparr>patchForceDryRun = dryRun (opts a1), patchForceApply = True\<rparr>) a1)))))"
    unfolding retryApplyWithConflicts_def Let_def resolved_def a0_def r_def
    by (simp split: sum.splits prod.splits)
  show ?thesis
  proof (cases resolved)
    case (Inl a')
    with res f0 eq show ?thesis by (auto intro: follows_trans)
  next
    case (Inr p)
    obtain x2 a1 where p: "p = (x2, a1)" by (cases p)
    have "follows a0 a1" using res Inr p by simp
    then have "follows a a1" using f0 by (blast intro: follows_trans)
    moreover have "follows a1 (retryApplyWithConflicts k x hook remote e a)"
      unfolding eq Inr p
      using follows_forcedPatch [where ov = "\<lparr>patchForceDryRun = dryRun (opts a1), patchForceApply = True\<rparr>"
          and ?a1.0 = a1 and k = k and ?x2.0 = x2 and r = r and hook = hook]
      by simp
    ultimately show ?thesis by (blast intro: follows_trans)
  qed
qed

lemma follows_applyObject: "follows a (applyObject k x replaced hook a)"
  unfolding applyObject_def Let_def
  by (auto split: prod.splits sum.splits
      intro: follows_handleResult
         follows_trans [OF follows_call follows_handleError]
         follows_trans [OF follows_call follows_handleResult]
         follows_trans [OF follows_call follows_retryApplyWithConflicts]
         follows_trans [OF follows_call follows_retryApplyWithReplace])

subsection \<open>The replace ladder\<close>

text \<open>
  The retry by update never looks at the remote object beyond its presence: two remote
  objects, whatever their resourceVersions, lead to the same calls and the same state.
\<close>

lemma replace_request_ignores_remote:
  "retryApplyWithReplace k x hook (Some remote1) e a
     = retryApplyWithReplace k x hook (Some remote2) e a"
  by (simp add: retryApplyWithReplace_def Let_def)

text \<open>
  C1. After a patch of \<open>cm1\<close> failed with a non-conflict 422, with \<open>replaceOnError\<close> set and the
  remote object (resourceVersion 42) in the cache, the claim expects an UPDATE whose request
  carries resourceVersion 42. The engine issues the UPDATE with \<open>cm1\<close> as it was rendered:
  the request's resourceVersion is empty, not 42.
\<close>

theorem replace_update_sends_unversioned_object:
  "issued (applyObject (fixedCluster (Some errInvalid) (Inr cm1Remote) notReady) cm1 False False
             (newApplyUtil cacheWithCm1 (runOptions\<lparr>replaceOnError := True\<rparr>)))
     = [PatchCall cm1 \<lparr>patchForceDryRun = False, patchForceApply = False\<rparr>,
        UpdateCall cm1 \<lparr>updateForceDryRun = False\<rparr>]
   \<and> GetResourceVersion cm1 = []
   \<and> GetResourceVersion cm1Remote = ''42''"
  by (simp add: applyObject_def retryApplyWithReplace_def fixedCluster_def newApplyUtil_def
      runOptions_def cacheWithCm1_def cm1_def cm1Remote_def cm1Ref_def errInvalid_def
      RefFromObject_def getRemoteObject_def handleApiWarnings_def addApiWarnings_def emit_def
      handleResult_def IsConflict_def GetResourceVersion_def SetResourceVersion_def
      CopyUnstructured_def Let_def)

text \<open>
  C2. A patch of \<open>cm1\<close> fails with a field-ownership conflict while the cache holds nothing
  for \<open>cm1\<close>, and \<open>forceApply\<close> is set. The claim expects the conflict to be recorded and
  nothing more. The engine records the conflict and then patches again with the force
  directive; the forced patch succeeds, so \<open>cm1\<close> ends up both in the error ledger and in the
  applied map.
\<close>

theorem conflict_without_remote_still_retries:
  "issued (applyObject (fixedCluster (Some errConflict) (Inr cm1Remote) notReady) cm1 False False
             (newApplyUtil Map.empty (runOptions\<lparr>forceApply := True\<rparr>)))
     = [PatchCall cm1 \<lparr>patchForceDryRun = False, patchForceApply = False\<rparr>,
        PatchCall cm1 \<lparr>patchForceDryRun = False, patchForceApply = True\<rparr>]
   \<and> errorLedger (applyObject (fixedCluster (Some errConflict) (Inr cm1Remote) notReady) cm1 False False
             (newApplyUtil Map.empty (runOptions\<lparr>forceApply := True\<rparr>)))
     = [(cm1Ref, errConflict)]
   \<and> appliedObjects (applyObject (fixedCluster (Some errConflict) (Inr cm1Remote) notReady) cm1 False False
             (newApplyUtil Map.empty (runOptions\<lparr>forceApply := True\<rparr>))) cm1Ref
     = Some cm1"
  by (simp add: applyObject_def retryApplyWithConflicts_def fixedCluster_def newApplyUtil_def
      runOptions_def cm1_def cm1Ref_def errConflict_def handleError_def addError_def
      RefFromObject_def getRemoteObject_def handleApiWarnings_def addApiWarnings_def emit_def
      handleResult_def IsConflict_def Let_def)




subsection \<open>Dry run\<close>

text \<open>
  C6. In a run with \<open>dryRun\<close> set, every patch, update and delete that \<open>applyObject\<close> or
  \<open>deleteObject\<close> issues, on any path through the retries, carries \<open>ForceDryRun\<close>. The events
  of the state before are a prefix of those after, so \<open>newEvents\<close> are the calls of this step.
\<close>

theorem dry_run_on_every_mutation:
  assumes "dryRun (opts a)"
  shows "take (length (issued a)) (issued (applyObject k x replaced hook a)) = issued a
         \<and> (\<forall>ev \<in> set (newEvents a (applyObject k x replaced hook a)).
               isMutation ev \<longrightarrow> carriesDryRun ev)
         \<and> take (length (issued a)) (issued (snd (deleteObject k r a))) = issued a
         \<and> (\<forall>ev \<in> set (newEvents a (snd (deleteObject k r a))).
               isMutation ev \<longrightarrow> carriesDryRun ev)"
proof -
  have *: "take (length (issued a)) (issued a') = issued a
           \<and> (\<forall>ev \<in> set (newEvents a a'). isMutation ev \<longrightarrow> carriesDryRun ev)"
    if "follows a a'" for a'
  proof -
    from that obtain evs where evs: "issued a' = issued a @ evs"
      and fl: "\<forall>ev \<in> set evs. dryRunOf ev = None \<or> dryRunOf ev = Some (dryRun (opts a))"
      unfolding follows_def by blast
    have "newEvents a a' = evs" by (simp add: newEvents_def evs)
    with evs fl assms show ?thesis
      by (auto simp: isMutation_def carriesDryRun_def)
  qed
  show ?thesis
    using * [OF follows_applyObject [of a k x replaced hook]] * [OF follows_deleteObject [of a k r]]
    by simp
qed

theorem dry_run_on_every_mutation_witness:
  "dryRun (opts (newApplyUtil cacheWithCm1
       (runOptions\<lparr>replaceOnError := True, forceReplaceOnError := True, dryRun := True\<rparr>)))
   \<and> newEvents (newApplyUtil cacheWithCm1
       (runOptions\<lparr>replaceOnError := True, forceReplaceOnError := True, dryRun := True\<rparr>))
       (applyObject (fixedCluster (Some errInvalid) (Inr cm1Remote) notReady) cm1 False False
         (newApplyUtil cacheWithCm1
           (runOptions\<lparr>replaceOnError := True, forceReplaceOnError := True, dryRun := True\<rparr>)))
      = [PatchCall cm1 \<lparr>patchForceDryRun = True, patchForceApply = False\<rparr>,
         UpdateCall cm1 \<lparr>updateForceDryRun = True\<rparr>]
   \<and> list_all carriesDryRun (filter isMutation (newEvents (newApplyUtil cacheWithCm1
       (runOptions\<lparr>replaceOnError := True, forceReplaceOnError := True, dryRun := True\<rparr>))
       (applyObject (fixedCluster (Some errInvalid) (Inr cm1Remote) notReady) cm1 False False
         (newApplyUtil cacheWithCm1
           (runOptions\<lparr>replaceOnError := True, forceReplaceOnError := True, dryRun := True\<rparr>)))))"
  using dry_run_on_every_mutation
    [of "newApplyUtil cacheWithCm1
           (runOptions\<lparr>replaceOnError := True, forceReplaceOnError := True, dryRun := True\<rparr>)"
        "fixedCluster (Some errInvalid) (Inr cm1Remote) notReady" cm1 False False cm1Ref]
  by (simp add: applyObject_def retryApplyWithReplace_def fixedCluster_def newApplyUtil_def
      runOptions_def cacheWithCm1_def cm1_def cm1Remote_def cm1Ref_def errInvalid_def
      RefFromObject_def getRemoteObject_def handleApiWarnings_def addApiWarnings_def emit_def
      handleResult_def IsConflict_def GetResourceVersion_def SetResourceVersion_def
      CopyUnstructured_def Let_def newEvents_def isMutation_def carriesDryRun_def)

subsection \<open>Waiting for a hook\<close>











section \<open>Properties of the scheduler and of one item\<close>

subsection \<open>The scheduler's invariant\<close>

lemma schedInv_init: "schedInv ds (applyDeploymentsInit ds a)"
  by (simp add: schedInv_def applyDeploymentsInit_def)

lemma schedInv_schedulerStep: "schedInv ds c \<Longrightarrow> schedInv ds (schedulerStep c)"
  by (auto simp: schedInv_def schedulerStep_def split: pc.splits list.splits)

lemma mset_remove_nth:
  "i < length q \<Longrightarrow> mset (take i q @ drop (Suc i) q) + {#q ! i#} = mset q"
  by (metis add_mset_add_single id_take_nth_drop mset.simps(2) mset_append union_mset_add_mset_right)

lemma schedInv_workerStep: "schedInv ds c \<Longrightarrow> schedInv ds (workerStep k h i c)"
proof -
  assume inv: "schedInv ds c"
  show ?thesis
  proof (cases "i < min poolSize (length (queue c))")
    case False
    with inv show ?thesis by (auto simp add: workerStep_def)
  next
    case True
    then have i: "i < length (queue c)" by simp
    have ne: "queue c \<noteq> []" using i by auto
    from mset_remove_nth [OF i] inv
    have "mset (submitted c) = mset (completed c @ [queue c ! i])
            + mset (take i (queue c) @ drop (Suc i) (queue c))"
      by (simp add: schedInv_def ac_simps)
    with inv True ne show ?thesis
      by (auto simp: schedInv_def workerStep_def)
  qed
qed

lemma schedInv_step: "schedInv ds c \<Longrightarrow> schedInv ds (step k h act c)"
  by (cases act) (simp_all add: schedInv_schedulerStep schedInv_workerStep)

lemma schedInv_fold: "schedInv ds c \<Longrightarrow> schedInv ds (fold (step k h) acts c)"
  by (induction acts arbitrary: c) (simp_all add: schedInv_step)

lemma schedInv_applyDeployments: "schedInv ds (applyDeployments k h acts ds a)"
  unfolding applyDeployments_def by (rule schedInv_fold [OF schedInv_init])

text \<open>After the loop has ended nothing is submitted any more.\<close>

lemma submitted_after_loop_step:
  "pc c = AtFinalWait \<or> pc c = Returned \<Longrightarrow>
     (pc (step k h act c) = AtFinalWait \<or> pc (step k h act c) = Returned)
     \<and> submitted (step k h act c) = submitted c"
  by (cases act) (auto simp: schedulerStep_def workerStep_def)

lemma submitted_after_loop:
  "pc c = AtFinalWait \<or> pc c = Returned \<Longrightarrow> submitted (fold (step k h) acts c) = submitted c"
proof (induction acts arbitrary: c)
  case Nil
  show ?case by simp
next
  case (Cons act acts)
  from submitted_after_loop_step [OF Cons.prems, of k h act]
  have 1: "pc (step k h act c) = AtFinalWait \<or> pc (step k h act c) = Returned"
    and 2: "submitted (step k h act c) = submitted c" by simp_all
  from Cons.IH [OF 1] 2 show ?case by simp
qed

text \<open>The pool can always run what is waiting.\<close>

lemma fold_drain:
  "length (queue c) = n \<Longrightarrow>
     queue (fold (step k h) (replicate n (Worker 0)) c) = []
     \<and> todo (fold (step k h) (replicate n (Worker 0)) c) = todo c
     \<and> pc (fold (step k h) (replicate n (Worker 0)) c) = pc c
     \<and> submitted (fold (step k h) (replicate n (Worker 0)) c) = submitted c"
proof (induction n arbitrary: c)
  case 0
  then show ?case by simp
next
  case (Suc n)
  let ?c1 = "workerStep k h 0 c"
  have "length (queue ?c1) = n" "todo ?c1 = todo c" "pc ?c1 = pc c" "submitted ?c1 = submitted c"
    using Suc.prems by (simp_all add: workerStep_def poolSize_def)
  with Suc.IH [of ?c1] show ?case by simp
qed

lemma finish_from_drained:
  "schedInv ds c \<Longrightarrow> \<exists>acts. pc (fold (step k h) acts c) = Returned"
proof (induction "length (todo c)" arbitrary: c rule: less_induct)
  case less
  define c1 where "c1 = fold (step k h) (drain c) c"
  have c1: "queue c1 = []" "todo c1 = todo c" "pc c1 = pc c"
    using fold_drain [of c "length (queue c)" k h] by (simp_all add: c1_def drain_def)
  have inv1: "schedInv ds c1" unfolding c1_def by (rule schedInv_fold [OF less.prems])
  have via: "\<exists>acts. pc (fold (step k h) acts c) = Returned"
    if "pc (fold (step k h) more c1) = Returned" for more
  proof -
    have "fold (step k h) (drain c @ more) c = fold (step k h) more c1" by (simp add: c1_def)
    with that show ?thesis by metis
  qed
  have viaIH: "\<exists>acts. pc (fold (step k h) acts c) = Returned"
    if "length (todo (fold (step k h) more c1)) < length (todo c)" for more
  proof -
    let ?c2 = "fold (step k h) more c1"
    have "schedInv ds ?c2" by (rule schedInv_fold [OF inv1])
    from less.hyps [OF that this] obtain acts where "pc (fold (step k h) acts ?c2) = Returned" ..
    then have "pc (fold (step k h) (drain c @ more @ acts) c) = Returned" by (simp add: c1_def)
    then show ?thesis by blast
  qed
  show ?case
  proof (cases "pc c1")
    case Returned
    then show ?thesis using via [of "[]"] by simp
  next
    case AtFinalWait
    then show ?thesis using via [of "[Scheduler]"] c1 by (simp add: schedulerStep_def)
  next
    case AtSubmit
    with inv1 obtain d rest where t: "todo c1 = d # rest" by (cases "todo c1") (auto simp: schedInv_def)
    show ?thesis
      using viaIH [of "[Scheduler]"] AtSubmit t c1 by (simp add: schedulerStep_def)
  next
    case AtBarrier
    with inv1 obtain d rest where t: "todo c1 = d # rest" by (cases "todo c1") (auto simp: schedInv_def)
    show ?thesis
      using viaIH [of "[Scheduler, Scheduler]"] AtBarrier t c1 by (simp add: schedulerStep_def)
  next
    case AtCheck
    show ?thesis
    proof (cases "todo c1 = [] \<or> abortSignal (au c1)")
      case True
      then show ?thesis
        using via [of "[Scheduler, Scheduler]"] AtCheck c1
        by (auto simp: schedulerStep_def split: list.splits)
    next
      case False
      then obtain d rest where t: "todo c1 = d # rest" by (cases "todo c1") auto
      show ?thesis
        using viaIH [of "[Scheduler, Scheduler, Scheduler]"] AtCheck t c1 False
        by (simp add: schedulerStep_def)
    qed
  qed
qed

subsection \<open>Initial deploy or upgrade\<close>

lemma initialDeploy_fold:
  "fold (\<lambda>x initial. if P x then False else initial) xs b = (b \<and> (\<forall>x \<in> set xs. \<not> P x))"
  by (induction xs arbitrary: b) auto

lemma applyObjects_fold:
  "fold (\<lambda>x acc. if Q x then acc else acc @ [x]) xs acc = acc @ filter (\<lambda>x. \<not> Q x) xs"
  by (induction xs arbitrary: acc) auto

lemmas engine_eval =
  applyKustomizeDeployment_def initialDeploy_def applyObjects_def applyObject_def
  retryApplyWithReplace_def retryApplyWithConflicts_def retryApplyForceReplace_def
  deleteObject_def handleError_def addError_def handleResult_def handleApiWarnings_def
  addApiWarnings_def addWarning_def emit_def getRemoteObject_def RefFromObject_def
  IsConflict_def fixedCluster_def newApplyUtil_def runOptions_def notingHooks_def item_def
  cm1_def cm2_def cm1Ref_def cm2Ref_def job1_def job1Ref_def job1Remote_def errInvalid_def
  Let_def

lemmas sched_eval =
  applyDeployments_def applyDeploymentsInit_def schedulerStep_def workerStep_def poolSize_def
  barrierOf_def

text \<open>
  C4, as the code has it. An item is an initial deploy exactly when the Remote Object Cache
  holds nothing for every object of the item, hooks included: the loop that decides it
  ranges over all of \<open>d.objects\<close>. The objects applied are those of \<open>d.objects\<close> that are
  no hooks, in their order. For an item with a path that passes the inclusion check, an
  initial deploy runs the phases \<open>pre-deploy-initial, pre-deploy\<close> before and
  \<open>post-deploy-initial, post-deploy\<close> after the objects, an upgrade runs
  \<open>pre-deploy-upgrade, pre-deploy\<close> and \<open>post-deploy-upgrade, post-deploy\<close>.
\<close>

theorem initial_deploy_counts_every_object:
  "(initialDeploy a d \<longleftrightarrow> (\<forall>x \<in> set (objects d). getRemoteObject a (RefFromObject x) = None))
   \<and> applyObjects h d = filter (\<lambda>x. getHook h x = None) (objects d)
   \<and> (configPath d \<noteq> None \<and> checkInclusionForDeploy h d \<longrightarrow>
        applyKustomizeDeployment k h d a =
          (if initialDeploy a d then
             runHooks h k d [''post-deploy-initial'', ''post-deploy'']
               (fold (\<lambda>x. applyObject k x False False) (applyObjects h d)
                  (runHooks h k d [''pre-deploy-initial'', ''pre-deploy''] a))
           else
             runHooks h k d [''post-deploy-upgrade'', ''post-deploy'']
               (fold (\<lambda>x. applyObject k x False False) (applyObjects h d)
                  (runHooks h k d [''pre-deploy-upgrade'', ''pre-deploy''] a))))"
proof (intro conjI impI)
  show "initialDeploy a d \<longleftrightarrow> (\<forall>x \<in> set (objects d). getRemoteObject a (RefFromObject x) = None)"
    unfolding initialDeploy_def
    using initialDeploy_fold [of "\<lambda>x. getRemoteObject a (RefFromObject x) \<noteq> None" "objects d" True]
    by simp
  show "applyObjects h d = filter (\<lambda>x. getHook h x = None) (objects d)"
    unfolding applyObjects_def
    using applyObjects_fold [of "\<lambda>x. getHook h x \<noteq> None" "objects d" "[]"] by simp
next
  assume "configPath d \<noteq> None \<and> checkInclusionForDeploy h d"
  then show "applyKustomizeDeployment k h d a =
          (if initialDeploy a d then
             runHooks h k d [''post-deploy-initial'', ''post-deploy'']
               (fold (\<lambda>x. applyObject k x False False) (applyObjects h d)
                  (runHooks h k d [''pre-deploy-initial'', ''pre-deploy''] a))
           else
             runHooks h k d [''post-deploy-upgrade'', ''post-deploy'']
               (fold (\<lambda>x. applyObject k x False False) (applyObjects h d)
                  (runHooks h k d [''pre-deploy-upgrade'', ''pre-deploy''] a)))"
    by (auto simp add: applyKustomizeDeployment_def Let_def)
qed

theorem initial_deploy_counts_every_object_witness:
  "configPath (item False [job1, cm1]) \<noteq> None
   \<and> checkInclusionForDeploy (notingHooks job1Ref) (item False [job1, cm1])
   \<and> initialDeploy (newApplyUtil Map.empty runOptions) (item False [job1, cm1])
   \<and> warningLedger (applyKustomizeDeployment (fixedCluster None (Inr cm1Remote) notReady)
        (notingHooks job1Ref) (item False [job1, cm1]) (newApplyUtil Map.empty runOptions))
      = [(job1Ref, ''pre-deploy-initial''), (job1Ref, ''pre-deploy''),
         (job1Ref, ''post-deploy-initial''), (job1Ref, ''post-deploy'')]
   \<and> issued (applyKustomizeDeployment (fixedCluster None (Inr cm1Remote) notReady)
        (notingHooks job1Ref) (item False [job1, cm1]) (newApplyUtil Map.empty runOptions))
      = [PatchCall cm1 \<lparr>patchForceDryRun = False, patchForceApply = False\<rparr>]"
  using initial_deploy_counts_every_object
    [of "newApplyUtil Map.empty runOptions" "item False [job1, cm1]" "notingHooks job1Ref"
        "fixedCluster None (Inr cm1Remote) notReady"]
  by (simp add: engine_eval)

text \<open>
  C4 as it is written fails on an item whose only object known to the cluster is a hook:
  the item holds the hook \<open>job1\<close>, which the cache has, and the regular object \<open>cm1\<close>,
  which it has not. Every regular object is new, yet the item is an upgrade and the
  upgrade phases are run.
\<close>

theorem hook_object_makes_item_an_upgrade:
  "applyObjects (notingHooks job1Ref) (item False [job1, cm1]) = [cm1]
   \<and> getRemoteObject (newApplyUtil [job1Ref \<mapsto> job1Remote] runOptions) (RefFromObject cm1) = None
   \<and> \<not> initialDeploy (newApplyUtil [job1Ref \<mapsto> job1Remote] runOptions) (item False [job1, cm1])
   \<and> warningLedger (applyKustomizeDeployment (fixedCluster None (Inr cm1Remote) notReady)
        (notingHooks job1Ref) (item False [job1, cm1])
        (newApplyUtil [job1Ref \<mapsto> job1Remote] runOptions))
      = [(job1Ref, ''pre-deploy-upgrade''), (job1Ref, ''pre-deploy''),
         (job1Ref, ''post-deploy-upgrade''), (job1Ref, ''post-deploy'')]"
  by (simp add: engine_eval)

subsection \<open>What is handed to the pool\<close>




subsection \<open>The abort signal\<close>

text \<open>
  C7, as the code has it. With \<open>abortOnError\<close> set, \<open>handleError\<close> sets the abort signal in
  the same step in which it appends the error. The scheduler reads the signal at the head
  of its loop: when it reads it set, the loop ends and nothing is submitted from then on,
  whatever happens later. \<open>applyDeployments\<close> has returned only when the pool is drained,
  that is when every submitted item has been run; and from every moment of a run some
  continuation lets it return.
\<close>

theorem abort_signal_read_at_loop_head:
  "(abortOnError (opts a) \<longrightarrow>
      abortSignal (handleError r e a) \<and> errorLedger (handleError r e a) = errorLedger a @ [(r, e)])
   \<and> (pc (applyDeployments k h acts ds a0) = AtCheck
        \<and> abortSignal (au (applyDeployments k h acts ds a0)) \<longrightarrow>
        submitted (applyDeployments k h (acts @ Scheduler # later) ds a0)
          = submitted (applyDeployments k h acts ds a0))
   \<and> (pc (applyDeployments k h acts ds a0) = Returned \<longrightarrow>
        queue (applyDeployments k h acts ds a0) = []
        \<and> mset (completed (applyDeployments k h acts ds a0))
            = mset (submitted (applyDeployments k h acts ds a0)))
   \<and> (\<exists>rest. pc (applyDeployments k h (acts @ rest) ds a0) = Returned)"
proof (intro conjI impI)
  assume "abortOnError (opts a)"
  then show "abortSignal (handleError r e a)"
    and "errorLedger (handleError r e a) = errorLedger a @ [(r, e)]"
    by (simp_all add: handleError_def addError_def)
next
  let ?c = "applyDeployments k h acts ds a0"
  assume h: "pc ?c = AtCheck \<and> abortSignal (au ?c)"
  then have s: "pc (schedulerStep ?c) = AtFinalWait" "submitted (schedulerStep ?c) = submitted ?c"
    by (auto simp: schedulerStep_def split: list.splits)
  have "applyDeployments k h (acts @ Scheduler # later) ds a0
          = fold (step k h) later (schedulerStep ?c)"
    by (simp add: applyDeployments_def)
  then show "submitted (applyDeployments k h (acts @ Scheduler # later) ds a0) = submitted ?c"
    using submitted_after_loop [of "schedulerStep ?c" k h later] s by simp
next
  let ?c = "applyDeployments k h acts ds a0"
  assume r: "pc ?c = Returned"
  have inv: "schedInv ds ?c" by (rule schedInv_applyDeployments)
  with r show "queue ?c = []" by (simp add: schedInv_def)
  with inv show "mset (completed ?c) = mset (submitted ?c)" by (simp add: schedInv_def)
next
  let ?c = "applyDeployments k h acts ds a0"
  have inv: "schedInv ds ?c" by (rule schedInv_applyDeployments)
  from finish_from_drained [OF inv, of k h] obtain rest
    where "pc (fold (step k h) rest ?c) = Returned" ..
  then have "pc (applyDeployments k h (acts @ rest) ds a0) = Returned"
    by (simp add: applyDeployments_def)
  then show "\<exists>rest. pc (applyDeployments k h (acts @ rest) ds a0) = Returned" ..
qed

theorem abort_signal_read_at_loop_head_witness:
  "abortOnError (opts (newApplyUtil Map.empty (runOptions\<lparr>abortOnError := True\<rparr>)))
   \<and> pc (applyDeployments (fixedCluster (Some errInvalid) (Inr cm1Remote) notReady) (notingHooks job1Ref)
         [Scheduler, Scheduler, Scheduler, Worker 0]
         [item False [cm1], item False [cm2]]
         (newApplyUtil Map.empty (runOptions\<lparr>abortOnError := True\<rparr>))) = AtCheck
   \<and> abortSignal (au (applyDeployments (fixedCluster (Some errInvalid) (Inr cm1Remote) notReady)
         (notingHooks job1Ref) [Scheduler, Scheduler, Scheduler, Worker 0]
         [item False [cm1], item False [cm2]]
         (newApplyUtil Map.empty (runOptions\<lparr>abortOnError := True\<rparr>))))
   \<and> submitted (applyDeployments (fixedCluster (Some errInvalid) (Inr cm1Remote) notReady)
         (notingHooks job1Ref)
         ([Scheduler, Scheduler, Scheduler, Worker 0] @ Scheduler # [Scheduler, Scheduler, Scheduler])
         [item False [cm1], item False [cm2]]
         (newApplyUtil Map.empty (runOptions\<lparr>abortOnError := True\<rparr>)))
      = [item False [cm1]]
   \<and> pc (applyDeployments (fixedCluster (Some errInvalid) (Inr cm1Remote) notReady)
         (notingHooks job1Ref)
         ([Scheduler, Scheduler, Scheduler, Worker 0] @ Scheduler # [Scheduler, Scheduler, Scheduler])
         [item False [cm1], item False [cm2]]
         (newApplyUtil Map.empty (runOptions\<lparr>abortOnError := True\<rparr>))) = Returned
   \<and> queue (applyDeployments (fixedCluster (Some errInvalid) (Inr cm1Remote) notReady)
         (notingHooks job1Ref)
         ([Scheduler, Scheduler, Scheduler, Worker 0] @ Scheduler # [Scheduler, Scheduler, Scheduler])
         [item False [cm1], item False [cm2]]
         (newApplyUtil Map.empty (runOptions\<lparr>abortOnError := True\<rparr>))) = []
   \<and> abortSignal (handleError cm1Ref errInvalid
         (newApplyUtil Map.empty (runOptions\<lparr>abortOnError := True\<rparr>)))"
proof -
  let ?k = "fixedCluster (Some errInvalid) (Inr cm1Remote) notReady"
  let ?a = "newApplyUtil Map.empty (runOptions\<lparr>abortOnError := True\<rparr>)"
  let ?acts = "[Scheduler, Scheduler, Scheduler, Worker 0]"
  let ?ds = "[item False [cm1], item False [cm2]]"
  have c: "pc (applyDeployments ?k (notingHooks job1Ref) ?acts ?ds ?a) = AtCheck
      \<and> abortSignal (au (applyDeployments ?k (notingHooks job1Ref) ?acts ?ds ?a))"
    by (simp add: sched_eval engine_eval)
  have s: "submitted (applyDeployments ?k (notingHooks job1Ref) ?acts ?ds ?a) = [item False [cm1]]"
    by (simp add: sched_eval engine_eval)
  have "submitted (applyDeployments ?k (notingHooks job1Ref)
           (?acts @ Scheduler # [Scheduler, Scheduler, Scheduler]) ?ds ?a)
        = submitted (applyDeployments ?k (notingHooks job1Ref) ?acts ?ds ?a)"
    using abort_signal_read_at_loop_head
      [of ?a cm1Ref errInvalid ?k "notingHooks job1Ref" ?acts ?ds ?a
          "[Scheduler, Scheduler, Scheduler]"] c
    by blast
  with s have "submitted (applyDeployments ?k (notingHooks job1Ref)
           (?acts @ Scheduler # [Scheduler, Scheduler, Scheduler]) ?ds ?a) = [item False [cm1]]"
    by simp
  moreover have "pc (applyDeployments ?k (notingHooks job1Ref)
           (?acts @ Scheduler # [Scheduler, Scheduler, Scheduler]) ?ds ?a) = Returned"
    by (simp add: sched_eval engine_eval)
  moreover have "abortOnError (opts ?a)"
    by (simp add: newApplyUtil_def runOptions_def)
  moreover have "queue (applyDeployments ?k (notingHooks job1Ref)
           (?acts @ Scheduler # [Scheduler, Scheduler, Scheduler]) ?ds ?a) = []"
    by (simp add: sched_eval engine_eval)
  moreover have "abortSignal (handleError cm1Ref errInvalid ?a)"
    by (simp add: handleError_def addError_def newApplyUtil_def runOptions_def)
  ultimately show ?thesis using c by blast
qed

text \<open>
  C7 as it is written fails when the signal is set after the scheduler has read it. The
  first item is a barrier and its patch fails. The scheduler submits it, reads the signal
  (not set) for the second item and waits at the barrier; the worker runs the first item,
  which records the error and sets the signal; the scheduler then leaves the barrier and
  submits the second item, with the signal set.
\<close>

theorem item_dispatched_after_abort_signal:
  "abortSignal (au (applyDeployments (fixedCluster (Some errInvalid) (Inr cm1Remote) notReady)
         (notingHooks job1Ref) [Scheduler, Scheduler, Scheduler, Scheduler, Worker 0]
         [item True [cm1], item False [cm2]]
         (newApplyUtil Map.empty (runOptions\<lparr>abortOnError := True\<rparr>))))
   \<and> errorLedger (au (applyDeployments (fixedCluster (Some errInvalid) (Inr cm1Remote) notReady)
         (notingHooks job1Ref) [Scheduler, Scheduler, Scheduler, Scheduler, Worker 0]
         [item True [cm1], item False [cm2]]
         (newApplyUtil Map.empty (runOptions\<lparr>abortOnError := True\<rparr>))))
      = [(cm1Ref, errInvalid)]
   \<and> submitted (applyDeployments (fixedCluster (Some errInvalid) (Inr cm1Remote) notReady)
         (notingHooks job1Ref) [Scheduler, Scheduler, Scheduler, Scheduler, Worker 0]
         [item True [cm1], item False [cm2]]
         (newApplyUtil Map.empty (runOptions\<lparr>abortOnError := True\<rparr>)))
      = [item True [cm1]]
   \<and> submitted (applyDeployments (fixedCluster (Some errInvalid) (Inr cm1Remote) notReady)
         (notingHooks job1Ref)
         ([Scheduler, Scheduler, Scheduler, Scheduler, Worker 0] @ [Scheduler, Scheduler])
         [item True [cm1], item False [cm2]]
         (newApplyUtil Map.empty (runOptions\<lparr>abortOnError := True\<rparr>)))
      = [item True [cm1], item False [cm2]]"
  by (simp add: sched_eval engine_eval)

section \<open>Properties of the command context\<close>

text \<open>
  Whatever the collaborators answer, the teardown is one of five lists: it never clears the
  OCI repo cache, and it clears the git repo cache either not at all or twice.
\<close>

lemma teardown_never_clears_oci_cache:
  "count_list (snd (withKluctlProjectFromArgs env pf af internalDeploy strict fc cb)) OciRepoCacheClear = 0
   \<and> (count_list (snd (withKluctlProjectFromArgs env pf af internalDeploy strict fc cb)) GitRepoCacheClear = 0
      \<or> count_list (snd (withKluctlProjectFromArgs env pf af internalDeploy strict fc cb)) GitRepoCacheClear = 2)"
proof -
  have "\<exists>t. snd (withKluctlProjectFromArgs env pf af internalDeploy strict fc cb)
        \<in> {[], [RemoveAll t], [J2Close, RemoveAll t], [CancelContext, J2Close, RemoveAll t],
            [GitRepoCacheClear, GitRepoCacheClear, CancelContext, J2Close, RemoveAll t]}"
    unfolding withKluctlProjectFromArgs_def Let_def
    by (cases "MkdirTemp env"; cases "NewKluctlJinja2 env strict"; cases "GetProjectDir env";
        simp split: sum.split)
  then show ?thesis by auto
qed

text \<open>
  C5. In a run in which every step succeeds, the claim expects the teardown to clear the git
  repo cache once and the OCI repo cache once. Both \<open>defer\<close> statements name \<open>gitRp\<close>: the
  teardown clears the git repo cache twice and the OCI repo cache never.
\<close>

theorem teardown_clears_git_cache_twice:
  "withKluctlProjectFromArgs plainEnv noFlags None False True False (\<lambda>p. None)
     = (None, [GitRepoCacheClear, GitRepoCacheClear, CancelContext, J2Close,
               RemoveAll ''/tmp/project-1''])
   \<and> count_list (snd (withKluctlProjectFromArgs plainEnv noFlags None False True False (\<lambda>p. None)))
        GitRepoCacheClear = 2
   \<and> count_list (snd (withKluctlProjectFromArgs plainEnv noFlags None False True False (\<lambda>p. None)))
        OciRepoCacheClear = 0"
  by (simp add: withKluctlProjectFromArgs_def plainEnv_def noFlags_def loadExternalArgs_def Let_def)

section \<open>Properties of the variable loader\<close>

subsection \<open>Writes go to new addresses\<close>

lemma unchangedBelow_refl: "unchangedBelow n h h"
  by (simp add: unchangedBelow_def)

lemma unchangedBelow_trans:
  "unchangedBelow n h h1 \<Longrightarrow> unchangedBelow n h1 h2 \<Longrightarrow> unchangedBelow n h h2"
  by (simp add: unchangedBelow_def)

lemma newVarsSource_frame:
  "newVarsSource h = (src, h1) \<Longrightarrow>
     src = fresh h \<and> fresh h1 = Suc (fresh h) \<and> unchangedBelow (fresh h) h h1"
  by (auto simp: newVarsSource_def unchangedBelow_def)

lemma copyPointer_frame:
  assumes "copyPointer p h = (p', h')" and "n \<le> fresh h"
  shows "unchangedBelow n h h' \<and> fresh h \<le> fresh h' \<and> structs h' = structs h
         \<and> (\<forall>q. p' = Some q \<longrightarrow> n \<le> q)"
  using assms by (auto simp: copyPointer_def unchangedBelow_def split: option.splits)

lemma DeepCopy_frame:
  assumes dc: "DeepCopy dst src h = Inr h'" and n: "n \<le> fresh h" and dst: "n \<le> dst"
  shows "unchangedBelow n h h'
         \<and> (\<exists>s'. structs h' dst = Some s' \<and> (\<forall>q \<in> set (pointers s'). n \<le> q))"
proof -
  from dc obtain s where s: "structs h src = Some s"
    by (auto simp: DeepCopy_def split: option.splits)
  obtain p1 h1 where c1: "copyPointer (IgnoreMissing s) h = (p1, h1)" by (cases "copyPointer (IgnoreMissing s) h")
  obtain p2 h2 where c2: "copyPointer (Values s) h1 = (p2, h2)" by (cases "copyPointer (Values s) h1")
  obtain p3 h3 where c3: "copyPointer (File s) h2 = (p3, h3)" by (cases "copyPointer (File s) h2")
  obtain p4 h4 where c4: "copyPointer (Git s) h3 = (p4, h4)" by (cases "copyPointer (Git s) h3")
  obtain p5 h5 where c5: "copyPointer (ClusterConfigMap s) h4 = (p5, h5)" by (cases "copyPointer (ClusterConfigMap s) h4")
  obtain p6 h6 where c6: "copyPointer (ClusterSecret s) h5 = (p6, h6)" by (cases "copyPointer (ClusterSecret s) h5")
  obtain p7 h7 where c7: "copyPointer (SystemEnvVars s) h6 = (p7, h7)" by (cases "copyPointer (SystemEnvVars s) h6")
  obtain p8 h8 where c8: "copyPointer (Http s) h7 = (p8, h8)" by (cases "copyPointer (Http s) h7")
  obtain p9 h9 where c9: "copyPointer (AwsSecretsManager s) h8 = (p9, h9)" by (cases "copyPointer (AwsSecretsManager s) h8")
  obtain p10 h10 where c10: "copyPointer (Vault s) h9 = (p10, h10)" by (cases "copyPointer (Vault s) h9")
  note f1 = copyPointer_frame [OF c1 n]
  have n1: "n \<le> fresh h1" using f1 n by simp
  note f2 = copyPointer_frame [OF c2 n1]
  have n2: "n \<le> fresh h2" using f2 n1 by simp
  note f3 = copyPointer_frame [OF c3 n2]
  have n3: "n \<le> fresh h3" using f3 n2 by simp
  note f4 = copyPointer_frame [OF c4 n3]
  have n4: "n \<le> fresh h4" using f4 n3 by simp
  note f5 = copyPointer_frame [OF c5 n4]
  have n5: "n \<le> fresh h5" using f5 n4 by simp
  note f6 = copyPointer_frame [OF c6 n5]
  have n6: "n \<le> fresh h6" using f6 n5 by simp
  note f7 = copyPointer_frame [OF c7 n6]
  have n7: "n \<le> fresh h7" using f7 n6 by simp
  note f8 = copyPointer_frame [OF c8 n7]
  have n8: "n \<le> fresh h8" using f8 n7 by simp
  note f9 = copyPointer_frame [OF c9 n8]
  have n9: "n \<le> fresh h9" using f9 n8 by simp
  note f10 = copyPointer_frame [OF c10 n9]
  have u: "unchangedBelow n h h10"
    by (intro unchangedBelow_trans [OF conjunct1 [OF f1]] unchangedBelow_trans [OF conjunct1 [OF f2]]
        unchangedBelow_trans [OF conjunct1 [OF f3]] unchangedBelow_trans [OF conjunct1 [OF f4]]
        unchangedBelow_trans [OF conjunct1 [OF f5]] unchangedBelow_trans [OF conjunct1 [OF f6]]
        unchangedBelow_trans [OF conjunct1 [OF f7]] unchangedBelow_trans [OF conjunct1 [OF f8]]
        unchangedBelow_trans [OF conjunct1 [OF f9]] conjunct1 [OF f10])
  have q: "\<forall>q. p1 = Some q \<longrightarrow> n \<le> q" "\<forall>q. p2 = Some q \<longrightarrow> n \<le> q"
    "\<forall>q. p3 = Some q \<longrightarrow> n \<le> q" "\<forall>q. p4 = Some q \<longrightarrow> n \<le> q"
    "\<forall>q. p5 = Some q \<longrightarrow> n \<le> q" "\<forall>q. p6 = Some q \<longrightarrow> n \<le> q"
    "\<forall>q. p7 = Some q \<longrightarrow> n \<le> q" "\<forall>q. p8 = Some q \<longrightarrow> n \<le> q"
    "\<forall>q. p9 = Some q \<longrightarrow> n \<le> q" "\<forall>q. p10 = Some q \<longrightarrow> n \<le> q"
    using f1 f2 f3 f4 f5 f6 f7 f8 f9 f10 by blast+
  have h': "h' = h10\<lparr>structs := (structs h10)(dst \<mapsto>
                \<lparr>IgnoreMissing = p1, Values = p2, File = p3, Git = p4, ClusterConfigMap = p5,
                 ClusterSecret = p6, SystemEnvVars = p7, Http = p8, AwsSecretsManager = p9,
                 Vault = p10\<rparr>)\<rparr>"
    using dc by (simp add: DeepCopy_def s c1 c2 c3 c4 c5 c6 c7 c8 c9 c10)
  have "unchangedBelow n h h'"
    using u dst unfolding unchangedBelow_def h' by simp
  moreover have "\<forall>q \<in> set (pointers \<lparr>IgnoreMissing = p1, Values = p2, File = p3, Git = p4, ClusterConfigMap = p5,
                 ClusterSecret = p6, SystemEnvVars = p7, Http = p8, AwsSecretsManager = p9,
                 Vault = p10\<rparr>). n \<le> q"
    using q by (auto simp: pointers_def pointerFields_def List.map_filter_def)
  ultimately show ?thesis by (simp add: h')
qed

lemma write_cells_frame:
  "\<forall>pw \<in> set pws. n \<le> fst pw \<Longrightarrow> unchangedBelow n h (fold writeCell pws h)"
proof (induction pws arbitrary: h)
  case Nil
  show ?case by (simp add: unchangedBelow_refl)
next
  case (Cons pw pws)
  have 1: "unchangedBelow n h (writeCell pw h)"
    using Cons.prems by (auto simp: unchangedBelow_def writeCell_def)
  have 2: "unchangedBelow n (writeCell pw h) (fold writeCell pws (writeCell pw h))"
    using Cons.prems by (intro Cons.IH) simp
  from unchangedBelow_trans [OF 1 2] show ?case by simp
qed

lemma renderInPlace_frame:
  assumes "structs h src = Some s" and "\<forall>q \<in> set (pointers s). n \<le> q"
  shows "unchangedBelow n h (snd (renderInPlace v globals src h))"
proof -
  let ?ps = "filter (\<lambda>p. cells h p \<noteq> None) (pointers s)"
  obtain rendered err where r: "RenderStruct v globals (map (valueAt h) ?ps) = (rendered, err)"
    by (cases "RenderStruct v globals (map (valueAt h) ?ps)")
  have "\<forall>pw \<in> set (zip ?ps rendered). n \<le> fst pw"
    using assms(2) by (auto dest!: set_zip_leftD)
  from write_cells_frame [OF this, of h]
  have "unchangedBelow n h (fold writeCell (zip ?ps rendered) h)" .
  moreover have "snd (renderInPlace v globals src h) = fold writeCell (zip ?ps rendered) h"
    unfolding renderInPlace_def Let_def using assms(1) r by simp
  ultimately show ?thesis by simp
qed

lemma LoadVars_heap_cases:
  assumes nv: "newVarsSource h0 = (source, h1)"
  shows "snd (snd (LoadVars v varsCtx sourceIn searchDirs rootKey h0)) = h1
         \<or> (\<exists>h2. DeepCopy source sourceIn h1 = Inr h2
               \<and> (snd (snd (LoadVars v varsCtx sourceIn searchDirs rootKey h0)) = h2
                    \<or> (\<exists>globals. snd (snd (LoadVars v varsCtx sourceIn searchDirs rootKey h0))
                           = snd (renderInPlace v globals source h2))))"
proof (cases "DeepCopy source sourceIn h1")
  case (Inl err)
  then show ?thesis by (simp add: LoadVars_def nv)
next
  case (Inr h2)
  show ?thesis
  proof (cases "ToMap v varsCtx")
    case (Inl err)
    then show ?thesis using Inr by (simp add: LoadVars_def nv)
  next
    case globals: (Inr globals)
    obtain rerr h3 where r: "renderInPlace v globals source h2 = (rerr, h3)"
      by (cases "renderInPlace v globals source h2")
    have "snd (snd (LoadVars v varsCtx sourceIn searchDirs rootKey h0)) = h3"
      by (simp add: LoadVars_def nv Inr globals r Let_def split_beta split: option.splits prod.splits)
    then show ?thesis using Inr r by (metis snd_conv)
  qed
qed

lemmas loader_eval =
  LoadVars_def loadRendered_def newVarsSource_def DeepCopy_def copyPointer_def renderInPlace_def writeCell_def pointers_def
  pointerFields_def List.map_filter_def valueAt_def stringAt_def boolAt_def loadFile_def
  mergeUnderRoot_def mergeVars_def plainLoader_def fileHeap_def fileSource_def
  zeroVarsSource_def errorString_def wrapError_def Let_def

subsection \<open>The caller's source\<close>

text \<open>
  C10. \<open>LoadVars\<close> leaves the caller's \<open>VarsSource\<close> as it was: the struct at \<open>sourceIn\<close> and
  every document one of its pointers leads to are the same after the call as before it,
  whatever the template engine and the loaders do and whether the call fails or not. More
  than that, nothing that was in the store before the call is changed: the copy and all
  that is rendered are at addresses that did not exist before. The store is taken to be
  well formed: the struct and what it points to have been allocated.
\<close>

theorem LoadVars_leaves_source_unchanged:
  assumes "sourceIn < fresh h" and "structs h sourceIn = Some s"
    and "\<forall>p \<in> set (pointers s). p < fresh h"
  shows "structs (snd (snd (LoadVars v varsCtx sourceIn searchDirs rootKey h))) sourceIn = Some s
         \<and> (\<forall>p \<in> set (pointers s).
               cells (snd (snd (LoadVars v varsCtx sourceIn searchDirs rootKey h))) p = cells h p)
         \<and> unchangedBelow (fresh h) h (snd (snd (LoadVars v varsCtx sourceIn searchDirs rootKey h)))"
proof -
  let ?h' = "snd (snd (LoadVars v varsCtx sourceIn searchDirs rootKey h))"
  obtain source h1 where nv: "newVarsSource h = (source, h1)" by (cases "newVarsSource h")
  from newVarsSource_frame [OF nv]
  have src: "source = fresh h" and f1: "fresh h1 = Suc (fresh h)"
    and u1: "unchangedBelow (fresh h) h h1" by simp_all
  have u: "unchangedBelow (fresh h) h ?h'"
  proof -
    from LoadVars_heap_cases [OF nv, of v varsCtx sourceIn searchDirs rootKey]
    consider (a) "?h' = h1"
      | (b) h2 where "DeepCopy source sourceIn h1 = Inr h2" "?h' = h2"
      | (c) h2 globals where "DeepCopy source sourceIn h1 = Inr h2"
          "?h' = snd (renderInPlace v globals source h2)"
      by blast
    then show ?thesis
    proof cases
      case a
      with u1 show ?thesis by simp
    next
      case b
      from DeepCopy_frame [OF b(1), of "fresh h"] f1 src
      have "unchangedBelow (fresh h) h1 h2" by simp
      with u1 b(2) show ?thesis by (auto intro: unchangedBelow_trans)
    next
      case c
      from DeepCopy_frame [OF c(1), of "fresh h"] f1 src
      obtain s' where u2: "unchangedBelow (fresh h) h1 h2"
        and s': "structs h2 source = Some s'" "\<forall>q \<in> set (pointers s'). fresh h \<le> q"
        by auto
      from renderInPlace_frame [OF s', of v globals]
      have "unchangedBelow (fresh h) h2 ?h'" by (simp add: c(2))
      with u1 u2 show ?thesis by (blast intro: unchangedBelow_trans)
    qed
  qed
  then show ?thesis using assms by (auto simp: unchangedBelow_def)
qed

theorem LoadVars_leaves_source_unchanged_witness:
  "(0::nat) < fresh fileHeap
   \<and> structs fileHeap 0 = Some fileSource
   \<and> list_all (\<lambda>p. p < fresh fileHeap) (pointers fileSource)
   \<and> structs (snd (snd (LoadVars plainLoader [] 0 [] [] fileHeap))) 0 = Some fileSource
   \<and> cells (snd (snd (LoadVars plainLoader [] 0 [] [] fileHeap))) 1 = Some (Str ''vars-{{ env }}.yaml'')
   \<and> cells (snd (snd (LoadVars plainLoader [] 0 [] [] fileHeap))) 3 = Some (Str ''vars-prod.yaml'')
   \<and> fst (LoadVars plainLoader [] 0 [] [] fileHeap) = None
   \<and> fst (snd (LoadVars plainLoader [] 0 [] [] fileHeap)) = [Obj [(''a'', Str ''1'')]]"
proof -
  have a: "(0::nat) < fresh fileHeap" "structs fileHeap 0 = Some fileSource"
    and b: "\<forall>p \<in> set (pointers fileSource). p < fresh fileHeap"
    by (simp_all add: fileHeap_def fileSource_def zeroVarsSource_def pointers_def
        pointerFields_def List.map_filter_def)
  have one: "1 \<in> set (pointers fileSource)"
    by (simp add: fileSource_def zeroVarsSource_def pointers_def pointerFields_def List.map_filter_def)
  from LoadVars_leaves_source_unchanged [OF a b, of plainLoader "[]" "[]" "[]"] one
  have "structs (snd (snd (LoadVars plainLoader [] 0 [] [] fileHeap))) 0 = Some fileSource"
    and "cells (snd (snd (LoadVars plainLoader [] 0 [] [] fileHeap))) 1 = cells fileHeap 1"
    by blast+
  moreover have "cells fileHeap 1 = Some (Str ''vars-{{ env }}.yaml'')"
    by (simp add: fileHeap_def)
  moreover have "cells (snd (snd (LoadVars plainLoader [] 0 [] [] fileHeap))) 3 = Some (Str ''vars-prod.yaml'')"
    "fst (LoadVars plainLoader [] 0 [] [] fileHeap) = None"
    "fst (snd (LoadVars plainLoader [] 0 [] [] fileHeap)) = [Obj [(''a'', Str ''1'')]]"
    by (simp_all add: loader_eval)
  ultimately show ?thesis using a b by (simp add: list_all_iff)
qed

end
